theory Spec2Isabelle
  imports Complex_Main "HOL-Library.AList"
begin

section \<open>Conventions of the embedding\<close>

text \<open>
  The Python sources compute with \<open>float\<close> and \<open>Decimal\<close>. Both are embedded as
  \<^typ>\<open>real\<close>: every quantity is the exact value of the expression the code writes, and
  the theorems speak about these exact values. Strings (\<open>pair\<close>, \<open>prediction\<close>, session
  names, trade ids) stay strings, so that the \<open>if prediction == 'BULLISH' ... else\<close>
  branches keep the shape they have in the code. Dictionaries whose iteration order is
  observable are association lists in insertion order.
\<close>

subsection \<open>Python built-ins used by the sources\<close>

text \<open>\<open>sub in s\<close> on strings: \<open>sub\<close> occurs as a contiguous slice of \<open>s\<close>.\<close>

fun startswith :: "string \<Rightarrow> string \<Rightarrow> bool" where
  "startswith s [] = True"
| "startswith [] (p # ps) = False"
| "startswith (c # cs) (p # ps) = (c = p \<and> startswith cs ps)"

fun str_in :: "string \<Rightarrow> string \<Rightarrow> bool" where
  "str_in sub [] = (sub = [])"
| "str_in sub (c # cs) = (startswith (c # cs) sub \<or> str_in sub cs)"

text \<open>\<open>str.upper()\<close> on ASCII text (instrument symbols are ASCII).\<close>

definition upper_char :: "char \<Rightarrow> char" where
  "upper_char c =
     (case map_of (zip ''abcdefghijklmnopqrstuvwxyz'' ''ABCDEFGHIJKLMNOPQRSTUVWXYZ'') c of
        None \<Rightarrow> c | Some u \<Rightarrow> u)"

definition upper :: "string \<Rightarrow> string" where
  "upper s = map upper_char s"

text \<open>\<open>s[-3:]\<close>: the last three characters, or all of \<open>s\<close> when it is shorter.\<close>

definition last3 :: "string \<Rightarrow> string" where
  "last3 s = drop (length s - 3) s"

text \<open>
  \<open>round(x, n)\<close>: rounding to \<open>n\<close> decimals, a tie going to the even neighbour
  (Python 3 rounds half to even).
\<close>

definition round_half_even :: "real \<Rightarrow> int" where
  "round_half_even x =
     (let f = \<lfloor>x\<rfloor>; d = x - of_int f
      in if d < 1 / 2 then f else if 1 / 2 < d then f + 1
         else if even f then f else f + 1)"

definition py_round :: "real \<Rightarrow> nat \<Rightarrow> real" where
  "py_round x n = of_int (round_half_even (x * 10 ^ n)) / 10 ^ n"

subsection \<open>\<open>datetime\<close> values (timezone-aware, UTC)\<close>

record datetime =
  year :: int
  month :: int
  day :: int
  hour :: int
  minute :: int
  second :: int
  microsecond :: int

section \<open>Configuration (\<open>app/config.py\<close>)\<close>

text \<open>
  The global \<open>settings\<close> object is passed explicitly as \<open>cfg\<close>. Only the fields the
  modelled functions read are kept.
\<close>

record Settings =
  starting_balance :: real
  risk_percent :: real
  max_lot_size :: real
  min_lot_size :: real
  commission_per_lot :: real
  default_spread_pips :: real
  tp_percentile :: string
  sl_percentile :: string

definition default_settings :: Settings where
  "default_settings =
     \<lparr>starting_balance = 10000, risk_percent = 155 / 100, max_lot_size = 5,
      min_lot_size = 1 / 100, commission_per_lot = 35 / 10, default_spread_pips = 3 / 10,
      tp_percentile = ''P75'', sl_percentile = ''P50''\<rparr>"

definition TRADING_PAIRS :: "string list" where
  "TRADING_PAIRS =
     [''EURUSD'', ''GBPUSD'', ''USDJPY'', ''AUDUSD'', ''USDCAD'', ''NZDUSD'',
      ''EURGBP'', ''EURJPY'', ''GBPJPY'', ''EURAUD'', ''EURCAD'', ''EURNZD'',
      ''GBPAUD'', ''GBPCAD'', ''GBPNZD'', ''AUDJPY'', ''CADJPY'',
      ''XAUUSD'', ''XAGUSD'']"

definition ECN_SPREADS :: "(string \<times> real) list" where
  "ECN_SPREADS =
     [(''EURUSD'', 1 / 10), (''GBPUSD'', 3 / 10), (''USDJPY'', 2 / 10), (''AUDUSD'', 3 / 10),
      (''USDCAD'', 4 / 10), (''NZDUSD'', 5 / 10), (''EURGBP'', 4 / 10), (''EURJPY'', 5 / 10),
      (''GBPJPY'', 8 / 10), (''EURAUD'', 6 / 10), (''EURCAD'', 6 / 10), (''EURNZD'', 8 / 10),
      (''GBPAUD'', 9 / 10), (''GBPCAD'', 8 / 10), (''GBPNZD'', 1), (''AUDJPY'', 5 / 10),
      (''CADJPY'', 5 / 10), (''XAUUSD'', 15 / 100), (''XAGUSD'', 2 / 100)]"

definition SLIPPAGE :: "(string \<times> real) list" where
  "SLIPPAGE = [(''entry'', 2 / 10), (''exit_tp'', 1 / 10), (''exit_sl'', 5 / 10)]"

text \<open>\<open>d.get(k, default)\<close>.\<close>

definition dict_get :: "('k \<times> 'v) list \<Rightarrow> 'k \<Rightarrow> 'v \<Rightarrow> 'v" where
  "dict_get d k dflt = (case map_of d k of None \<Rightarrow> dflt | Some v \<Rightarrow> v)"

section \<open>Forex utilities (\<open>app/utils/forex_utils.py\<close>)\<close>

definition get_pip_value :: "string \<Rightarrow> real" where
  "get_pip_value pair =
     (let pair_upper = upper pair
      in if str_in ''XAU'' pair_upper then 1
         else if str_in ''XAG'' pair_upper then 1 / 100
         else if str_in ''JPY'' pair_upper then 1 / 100
         else 1 / 10000)"

definition DEFAULT_USD_RATES :: "(string \<times> real) list" where
  "DEFAULT_USD_RATES =
     [(''USDJPY'', 157), (''USDCAD'', 144 / 100), (''USDCHF'', 90 / 100),
      (''GBPUSD'', 126 / 100), (''AUDUSD'', 62 / 100), (''NZDUSD'', 58 / 100),
      (''EURUSD'', 108 / 100)]"

text \<open>Called by the trade executor without \<open>current_price\<close>, which the body never reads.\<close>

definition get_pip_value_in_usd :: "string \<Rightarrow> real" where
  "get_pip_value_in_usd pair =
     (let pair_upper = upper pair
      in if str_in ''XAU'' pair_upper then 100
         else if str_in ''XAG'' pair_upper then 50
         else
           (let quote_currency = last3 pair_upper
            in if quote_currency = ''USD'' then 10
               else if quote_currency = ''JPY''
                 then py_round (10 * (100 / dict_get DEFAULT_USD_RATES ''USDJPY'' 157)) 2
               else if quote_currency = ''CAD''
                 then py_round (10 / dict_get DEFAULT_USD_RATES ''USDCAD'' (144 / 100)) 2
               else if quote_currency = ''CHF''
                 then py_round (10 / dict_get DEFAULT_USD_RATES ''USDCHF'' (90 / 100)) 2
               else if quote_currency = ''GBP''
                 then py_round (10 * dict_get DEFAULT_USD_RATES ''GBPUSD'' (126 / 100)) 2
               else if quote_currency = ''AUD''
                 then py_round (10 * dict_get DEFAULT_USD_RATES ''AUDUSD'' (62 / 100)) 2
               else if quote_currency = ''NZD''
                 then py_round (10 * dict_get DEFAULT_USD_RATES ''NZDUSD'' (58 / 100)) 2
               else if quote_currency = ''EUR''
                 then py_round (10 * dict_get DEFAULT_USD_RATES ''EURUSD'' (108 / 100)) 2
               else 10))"

section \<open>Price stream (\<open>app/services/price_stream.py\<close>)\<close>

record Quote =
  q_pair :: string
  bid :: real
  ask :: real
  timestamp :: datetime

definition mid :: "Quote \<Rightarrow> real" where
  "mid q = (bid q + ask q) / 2"

record PriceAlert =
  trade_id :: string
  a_pair :: string
  direction :: string
  a_entry_price :: real
  a_take_profit :: real
  a_stop_loss :: real
  triggered :: bool
  trigger_type :: "string option"
  trigger_price :: "real option"
  trigger_time :: "datetime option"

text \<open>
  The websocket handle \<open>_ws\<close> is \<open>None\<close> or a connection that is open or not; the receive
  task \<open>_recv_task\<close> is \<open>None\<close> or a task in one of the states an \<open>asyncio.Task\<close> can be in.
\<close>

datatype ws_state = WsOpen | WsNotOpen

datatype task_state = TaskPending | TaskCancelled | TaskFinished | TaskFailed

record PriceStream =
  api_key :: string
  has_on_alert :: bool
  ws :: "ws_state option"
  quotes :: "(string \<times> Quote) list"
  alerts :: "(string \<times> PriceAlert) list"
  subscribed_pairs :: "string set"
  running :: bool
  recv_task :: "task_state option"
  connected :: bool

definition is_connected :: "PriceStream \<Rightarrow> bool" where
  "is_connected s = (case ws s of None \<Rightarrow> False | Some w \<Rightarrow> w = WsOpen)"

definition get_quote :: "PriceStream \<Rightarrow> string \<Rightarrow> Quote option" where
  "get_quote s p = map_of (quotes s) p"

definition add_alert :: "PriceStream \<Rightarrow> PriceAlert \<Rightarrow> PriceStream" where
  "add_alert s a = s\<lparr>alerts := AList.update (trade_id a) a (alerts s)\<rparr>"

definition remove_alert :: "PriceStream \<Rightarrow> string \<Rightarrow> PriceStream" where
  "remove_alert s tid = s\<lparr>alerts := AList.delete tid (alerts s)\<rparr>"

definition get_alert :: "PriceStream \<Rightarrow> string \<Rightarrow> PriceAlert option" where
  "get_alert s tid = map_of (alerts s) tid"

subsection \<open>\<open>_check_alerts\<close>\<close>

text \<open>
  The decision the loop body takes for one alert that passed the
  \<open>alert.pair != pair or alert.triggered\<close> filter: the locals \<open>(triggered, trigger_type)\<close>.
\<close>

definition trigger_decision :: "PriceAlert \<Rightarrow> real \<Rightarrow> bool \<times> string option" where
  "trigger_decision a price =
     (if direction a = ''BULLISH'' then
        (if price \<ge> a_take_profit a then (True, Some ''TP'')
         else if price \<le> a_stop_loss a then (True, Some ''SL'')
         else (False, None))
      else
        (if price \<le> a_take_profit a then (True, Some ''TP'')
         else if price \<ge> a_stop_loss a then (True, Some ''SL'')
         else (False, None)))"

text \<open>One iteration of the loop: the alert after it, and whether it was triggered now.\<close>

definition check_alert :: "string \<Rightarrow> Quote \<Rightarrow> PriceAlert \<Rightarrow> PriceAlert \<times> bool" where
  "check_alert p q a =
     (if a_pair a \<noteq> p \<or> triggered a then (a, False)
      else
        (let price = mid q; (trig, ty) = trigger_decision a price
         in if trig
            then (a\<lparr>triggered := True, trigger_type := ty,
                    trigger_price := Some price, trigger_time := Some (timestamp q)\<rparr>, True)
            else (a, False)))"

text \<open>
  The loop over \<open>list(self._alerts.items())\<close>. The alert objects are updated in place, so
  the dictionary keeps its keys and order. The second component lists, in order, the
  alerts handed to the \<open>on_alert\<close> callback (none when no callback is installed).
\<close>

fun check_alerts_loop ::
  "string \<Rightarrow> Quote \<Rightarrow> (string \<times> PriceAlert) list \<Rightarrow> (string \<times> PriceAlert) list \<times> PriceAlert list"
where
  "check_alerts_loop p q [] = ([], [])"
| "check_alerts_loop p q ((tid, a) # rest) =
     (let (a', fired) = check_alert p q a;
          (rest', delivered) = check_alerts_loop p q rest
      in ((tid, a') # rest', if fired then a' # delivered else delivered))"

definition check_alerts :: "PriceStream \<Rightarrow> string \<Rightarrow> Quote \<Rightarrow> PriceStream \<times> PriceAlert list" where
  "check_alerts s p q =
     (let (al, delivered) = check_alerts_loop p q (alerts s)
      in (s\<lparr>alerts := al\<rparr>, if has_on_alert s then delivered else []))"

subsection \<open>\<open>disconnect\<close>\<close>

text \<open>
  \<open>task.cancel()\<close> requests cancellation of a task that is still pending and does nothing
  to a task that is done; \<open>TaskCancelled\<close> is the state of a task that was stopped by such a
  request. Awaiting the task afterwards yields \<open>CancelledError\<close> (which \<open>disconnect\<close>
  swallows) or the task's result; a task that had already died with another exception
  re-raises it, and \<open>disconnect\<close> then stops at that line.
\<close>

fun cancel :: "task_state \<Rightarrow> task_state" where
  "cancel TaskPending = TaskCancelled"
| "cancel t = t"

datatype py_error = TaskException

definition disconnect :: "PriceStream \<Rightarrow> PriceStream \<times> py_error option" where
  "disconnect s =
     (let s1 = s\<lparr>running := False, connected := False\<rparr>;
          s2 = (case recv_task s1 of None \<Rightarrow> s1
                | Some t \<Rightarrow> s1\<lparr>recv_task := Some (cancel t)\<rparr>)
      in if recv_task s2 = Some TaskFailed then (s2, Some TaskException)
         else
           (let s3 = (case ws s2 of None \<Rightarrow> s2 | Some w \<Rightarrow> s2\<lparr>ws := None\<rparr>)
            in (s3\<lparr>quotes := [], subscribed_pairs := {}\<rparr>, None)))"

section \<open>Database tables (\<open>alembic/versions\<close>)\<close>

text \<open>
  A table is the list of its rows. A row holds the values the code passes to the
  database; the column precisions are not modelled. Outcome columns are nullable.
\<close>

record Trade =
  t_trade_id :: string
  t_pair :: string
  t_session_name :: string
  t_session_datetime :: datetime
  t_prediction :: string
  t_conviction :: int
  t_full_analysis :: "string option"
  t_entry_price :: real
  t_spread_pips :: real
  t_stop_loss :: real
  t_take_profit :: real
  t_sl_pips :: real
  t_tp_pips :: real
  t_lot_size :: real
  t_risk_pct :: real
  t_mfe_percentile :: string
  t_mae_percentile :: string
  t_created_at :: datetime
  t_exit_price :: "real option"
  t_outcome :: "string option"
  t_pnl_pips :: "real option"
  t_pnl_dollars :: "real option"
  t_commission :: "real option"
  t_verified_at :: "datetime option"

record Account =
  balance :: real
  initial_balance :: real
  total_trades :: int
  winning_trades :: int
  losing_trades :: int
  peak_balance :: real
  max_drawdown_pct :: real
  last_updated :: datetime

text \<open>A row of \<open>rolling_window\<close>, with the \<open>model\<close> column of migration 002.\<close>

record RollingRow =
  rw_pair :: string
  rw_session_name :: string
  rw_session_datetime :: int
  rw_model :: string
  rw_prediction :: string
  rw_correct :: bool
  rw_mfe_pips :: real
  rw_mae_pips :: real
  rw_mfe_first :: "bool option"
  rw_time_to_mfe_minutes :: "int option"
  rw_time_to_mae_minutes :: "int option"
  in_window :: bool

text \<open>A row of the materialized view \<open>percentile_targets\<close>.\<close>

record PercentileRow =
  pr_pair :: string
  pr_session_name :: string
  pr_model :: string
  pr_sample_count :: int
  pr_mfe_p25 :: real
  pr_mfe_p50 :: real
  pr_mfe_p75 :: real
  pr_mae_p25 :: real
  pr_mae_p50 :: real
  pr_mae_p75 :: real
  pr_accuracy_pct :: real
  pr_updated_at :: int

text \<open>
  \<open>account\<close> is read with \<open>SELECT * FROM account ORDER BY id LIMIT 1\<close>: only its first row
  matters, so the table is that row or nothing.
\<close>

record Database =
  trades :: "Trade list"
  account :: "Account option"
  rolling_window :: "RollingRow list"
  percentile_targets :: "PercentileRow list"

section \<open>Risk engine (\<open>app/services/risk_engine.py\<close>)\<close>

record PercentileTargets =
  pt_pair :: string
  pt_session_name :: string
  sample_count :: int
  accuracy_pct :: real
  mfe_p25 :: real
  mfe_p50 :: real
  mfe_p75 :: real
  mae_p25 :: real
  mae_p50 :: real
  mae_p75 :: real

record RiskParameters =
  rp_pair :: string
  rp_session_name :: string
  rp_direction :: string
  rp_entry_price :: real
  rp_take_profit :: real
  rp_stop_loss :: real
  rp_tp_pips :: real
  rp_sl_pips :: real
  rp_lot_size :: real
  rp_risk_dollars :: real
  rp_spread_pips :: real
  rp_percentile_source :: string

text \<open>
  \<open>fetchrow\<close> of \<open>SELECT ... FROM percentile_targets WHERE pair = $1 AND session_name = $2\<close>:
  the first matching row, whatever its \<open>model\<close>. The view's columns are never NULL (each
  group has at least one row), and \<open>float(v) if v else 0.0\<close> maps a zero to \<open>0.0\<close>, so the
  values are copied.
\<close>

definition get_percentiles :: "Database \<Rightarrow> string \<Rightarrow> string \<Rightarrow> PercentileTargets option" where
  "get_percentiles db pair session_name =
     (case find (\<lambda>r. pr_pair r = pair \<and> pr_session_name r = session_name) (percentile_targets db) of
        None \<Rightarrow> None
      | Some row \<Rightarrow>
          Some \<lparr>pt_pair = pr_pair row, pt_session_name = pr_session_name row,
                sample_count = pr_sample_count row, accuracy_pct = pr_accuracy_pct row,
                mfe_p25 = pr_mfe_p25 row, mfe_p50 = pr_mfe_p50 row, mfe_p75 = pr_mfe_p75 row,
                mae_p25 = pr_mae_p25 row, mae_p50 = pr_mae_p50 row, mae_p75 = pr_mae_p75 row\<rparr>)"

text \<open>\<open>str.lower()\<close> on ASCII text.\<close>

definition lower_char :: "char \<Rightarrow> char" where
  "lower_char c =
     (case map_of (zip ''ABCDEFGHIJKLMNOPQRSTUVWXYZ'' ''abcdefghijklmnopqrstuvwxyz'') c of
        None \<Rightarrow> c | Some l \<Rightarrow> l)"

definition lower :: "string \<Rightarrow> string" where
  "lower s = map lower_char s"

text \<open>
  \<open>getattr(targets, f"{stat_type.lower()}_{percentile.lower()}", 0.0)\<close>. The callers pass
  \<open>'mfe'\<close> or \<open>'mae'\<close>, so only the six percentile attributes can be hit.
\<close>

definition get_percentile_value :: "PercentileTargets \<Rightarrow> string \<Rightarrow> string \<Rightarrow> real" where
  "get_percentile_value targets stat_type percentile =
     (let attr_name = lower stat_type @ ''_'' @ lower percentile
      in dict_get
           [(''mfe_p25'', mfe_p25 targets), (''mfe_p50'', mfe_p50 targets),
            (''mfe_p75'', mfe_p75 targets), (''mae_p25'', mae_p25 targets),
            (''mae_p50'', mae_p50 targets), (''mae_p75'', mae_p75 targets)]
           attr_name 0)"

definition calculate_tp_sl ::
  "Settings \<Rightarrow> real \<Rightarrow> string \<Rightarrow> string \<Rightarrow> PercentileTargets \<Rightarrow> string option \<Rightarrow> string option
     \<Rightarrow> real \<times> real \<times> real \<times> real"
where
  "calculate_tp_sl cfg entry_price dir pair targets tp_percentile_arg sl_percentile_arg =
     (let tp_p = (case tp_percentile_arg of None \<Rightarrow> tp_percentile cfg | Some p \<Rightarrow> p);
          sl_p = (case sl_percentile_arg of None \<Rightarrow> sl_percentile cfg | Some p \<Rightarrow> p);
          pip_value = get_pip_value pair;
          tp_pips = max (get_percentile_value targets ''mfe'' tp_p) 5;
          sl_pips = max (get_percentile_value targets ''mae'' sl_p) 5
      in if dir = ''BULLISH''
         then (entry_price + tp_pips * pip_value, entry_price - sl_pips * pip_value, tp_pips, sl_pips)
         else (entry_price - tp_pips * pip_value, entry_price + sl_pips * pip_value, tp_pips, sl_pips))"

text \<open>Returns \<open>(lot_size, risk_dollars)\<close>. Here \<open>'JPY' in pair\<close> is tested on the pair as given.\<close>

definition calculate_position_size ::
  "Settings \<Rightarrow> real \<Rightarrow> real \<Rightarrow> string \<Rightarrow> real option \<Rightarrow> real \<times> real"
where
  "calculate_position_size cfg bal sl_pips_arg pair risk_percent_arg =
     (let risk_pct = (case risk_percent_arg of None \<Rightarrow> risk_percent cfg | Some r \<Rightarrow> r);
          risk_dollars = bal * (risk_pct / 100);
          pip_value_per_lot =
            (if str_in ''JPY'' pair then 9
             else if str_in ''XAU'' pair \<or> str_in ''XAG'' pair then 10
             else 10);
          sl_pips = (if sl_pips_arg \<le> 0 then 10 else sl_pips_arg);
          lot0 = risk_dollars / (sl_pips * pip_value_per_lot);
          lot1 = max (min_lot_size cfg) lot0;
          lot2 = min (max_lot_size cfg) lot1
      in (py_round lot2 2, risk_dollars))"

definition calculate_risk_parameters ::
  "Settings \<Rightarrow> Database \<Rightarrow> string \<Rightarrow> string \<Rightarrow> string \<Rightarrow> real \<Rightarrow> real \<Rightarrow> RiskParameters option"
where
  "calculate_risk_parameters cfg db pair session_name dir entry_price bal =
     (case get_percentiles db pair session_name of
        None \<Rightarrow> None
      | Some targets \<Rightarrow>
          if sample_count targets < 30 then None
          else
            (let (take_profit, stop_loss, tp_pips, sl_pips) =
                   calculate_tp_sl cfg entry_price dir pair targets None None;
                 (lot_size, risk_dollars) = calculate_position_size cfg bal sl_pips pair None;
                 spread_pips = dict_get ECN_SPREADS pair (default_spread_pips cfg)
             in Some \<lparr>rp_pair = pair, rp_session_name = session_name, rp_direction = dir,
                      rp_entry_price = entry_price, rp_take_profit = take_profit,
                      rp_stop_loss = stop_loss, rp_tp_pips = tp_pips, rp_sl_pips = sl_pips,
                      rp_lot_size = lot_size, rp_risk_dollars = risk_dollars,
                      rp_spread_pips = spread_pips,
                      rp_percentile_source = tp_percentile cfg @ ''/'' @ sl_percentile cfg\<rparr>))"

section \<open>Trade executor (\<open>app/services/trade_executor.py\<close>)\<close>

record TradeEntry =
  te_trade_id :: string
  te_pair :: string
  te_session_name :: string
  te_session_datetime :: datetime
  te_prediction :: string
  te_conviction :: int
  te_full_analysis :: "string option"
  te_entry_price :: real
  te_spread_pips :: real
  te_stop_loss :: real
  te_take_profit :: real
  te_sl_pips :: real
  te_tp_pips :: real
  te_lot_size :: real
  te_risk_pct :: real
  te_mfe_percentile :: string
  te_mae_percentile :: string

record TradeExit =
  tx_trade_id :: string
  tx_exit_price :: real
  tx_outcome :: string
  tx_pnl_pips :: real
  tx_pnl_dollars :: real
  tx_commission :: real
  tx_slippage_pips :: real

definition calculate_exit_slippage :: "bool \<Rightarrow> real" where
  "calculate_exit_slippage is_stop =
     (if is_stop then dict_get SLIPPAGE ''exit_sl'' (5 / 10)
      else dict_get SLIPPAGE ''exit_tp'' (1 / 10))"

definition calculate_commission :: "Settings \<Rightarrow> real \<Rightarrow> real" where
  "calculate_commission cfg lot_size =
     (let commission_per_lot2 = commission_per_lot cfg * 2 in lot_size * commission_per_lot2)"

text \<open>
  The \<open>trades\<close> table of migration 001 carries two CHECK constraints,
  \<open>prediction IN ('BULLISH', 'BEARISH')\<close> and \<open>conviction BETWEEN 1 AND 10\<close>. An INSERT
  that violates one of them raises \<open>CheckViolationError\<close> and writes nothing.
\<close>

datatype db_error = CheckViolation

definition trades_check :: "string \<Rightarrow> int \<Rightarrow> bool" where
  "trades_check prediction conviction \<longleftrightarrow>
     (prediction = ''BULLISH'' \<or> prediction = ''BEARISH'') \<and> 1 \<le> conviction \<and> conviction \<le> 10"

text \<open>
  \<open>open_trade\<close>: \<open>new_id\<close> is the fresh \<open>uuid4\<close>, \<open>now\<close> the clock reading. The new row has
  NULL outcome columns. Returns the database after the INSERT and the \<open>TradeEntry\<close>, or
  the error the INSERT raised, in which case the function returns nothing.
\<close>

definition open_trade ::
  "Settings \<Rightarrow> datetime \<Rightarrow> string \<Rightarrow> Database \<Rightarrow> RiskParameters \<Rightarrow> string \<Rightarrow> int \<Rightarrow> datetime
     \<Rightarrow> string option \<Rightarrow> db_error + Database \<times> TradeEntry"
where
  "open_trade cfg now new_id db risk_params prediction conviction session_datetime full_analysis =
     (let pip_value = get_pip_value (rp_pair risk_params);
          spread_adjustment = rp_spread_pips risk_params * pip_value;
          adjusted_entry =
            (if prediction = ''BULLISH'' then rp_entry_price risk_params + spread_adjustment
             else rp_entry_price risk_params - spread_adjustment);
          row = \<lparr>t_trade_id = new_id, t_pair = rp_pair risk_params,
                 t_session_name = rp_session_name risk_params,
                 t_session_datetime = session_datetime, t_prediction = prediction,
                 t_conviction = conviction, t_full_analysis = full_analysis,
                 t_entry_price = adjusted_entry, t_spread_pips = rp_spread_pips risk_params,
                 t_stop_loss = rp_stop_loss risk_params,
                 t_take_profit = rp_take_profit risk_params,
                 t_sl_pips = rp_sl_pips risk_params, t_tp_pips = rp_tp_pips risk_params,
                 t_lot_size = rp_lot_size risk_params, t_risk_pct = risk_percent cfg,
                 t_mfe_percentile = tp_percentile cfg, t_mae_percentile = sl_percentile cfg,
                 t_created_at = now, t_exit_price = None, t_outcome = None, t_pnl_pips = None,
                 t_pnl_dollars = None, t_commission = None, t_verified_at = None\<rparr>
      in if \<not> trades_check prediction conviction then Inl CheckViolation
         else
           Inr (db\<lparr>trades := trades db @ [row]\<rparr>,
                \<lparr>te_trade_id = new_id, te_pair = rp_pair risk_params,
                 te_session_name = rp_session_name risk_params,
                 te_session_datetime = session_datetime, te_prediction = prediction,
                 te_conviction = conviction, te_full_analysis = full_analysis,
                 te_entry_price = adjusted_entry, te_spread_pips = rp_spread_pips risk_params,
                 te_stop_loss = rp_stop_loss risk_params,
                 te_take_profit = rp_take_profit risk_params,
                 te_sl_pips = rp_sl_pips risk_params, te_tp_pips = rp_tp_pips risk_params,
                 te_lot_size = rp_lot_size risk_params, te_risk_pct = risk_percent cfg,
                 te_mfe_percentile = tp_percentile cfg,
                 te_mae_percentile = sl_percentile cfg\<rparr>))"

text \<open>
  \<open>update_account_balance\<close>. A missing account row is created first, with the starting
  balance, zero counters and the column default \<open>0.00\<close> for \<open>max_drawdown_pct\<close>.
\<close>

definition initial_account :: "Settings \<Rightarrow> datetime \<Rightarrow> Account" where
  "initial_account cfg now =
     \<lparr>balance = starting_balance cfg, initial_balance = starting_balance cfg,
      total_trades = 0, winning_trades = 0, losing_trades = 0,
      peak_balance = starting_balance cfg, max_drawdown_pct = 0, last_updated = now\<rparr>"

definition update_account_balance ::
  "Settings \<Rightarrow> datetime \<Rightarrow> Database \<Rightarrow> real \<Rightarrow> string \<Rightarrow> Database"
where
  "update_account_balance cfg now db pnl outcome =
     (let acct = (case account db of None \<Rightarrow> initial_account cfg now | Some a \<Rightarrow> a);
          current_balance = balance acct;
          new_balance = current_balance + pnl;
          total = total_trades acct + 1;
          winning = winning_trades acct + (if outcome = ''WIN'' then 1 else 0);
          losing = losing_trades acct + (if outcome = ''LOSS'' then 1 else 0);
          peak = max (peak_balance acct) new_balance;
          drawdown_pct = (if peak > 0 then ((peak - new_balance) / peak) * 100 else 0);
          max_drawdown = max (max_drawdown_pct acct) drawdown_pct
      in db\<lparr>account :=
              Some (acct\<lparr>balance := new_balance, total_trades := total,
                          winning_trades := winning, losing_trades := losing,
                          peak_balance := peak, max_drawdown_pct := max_drawdown,
                          last_updated := now\<rparr>)\<rparr>)"

text \<open>
  \<open>close_trade\<close>. The intermediate values are named as in the code. An unknown
  \<open>trade_id\<close> returns \<open>None\<close> and leaves the database as it is; every other call
  computes the P/L, rewrites the row's outcome columns and updates the account.
\<close>

definition raw_pips :: "string \<Rightarrow> string \<Rightarrow> real \<Rightarrow> real \<Rightarrow> real" where
  "raw_pips prediction pair entry_price exit_price =
     (if prediction = ''BULLISH'' then (exit_price - entry_price) / get_pip_value pair
      else (entry_price - exit_price) / get_pip_value pair)"

definition close_trade ::
  "Settings \<Rightarrow> datetime \<Rightarrow> Database \<Rightarrow> string \<Rightarrow> real \<Rightarrow> string \<Rightarrow> bool
     \<Rightarrow> Database \<times> TradeExit option"
where
  "close_trade cfg now db tid exit_price outcome is_stop_exit =
     (case find (\<lambda>t. t_trade_id t = tid) (trades db) of
        None \<Rightarrow> (db, None)
      | Some trade \<Rightarrow>
          (let pair = t_pair trade;
               entry_price = t_entry_price trade;
               prediction = t_prediction trade;
               lot_size = t_lot_size trade;
               slippage_pips = calculate_exit_slippage is_stop_exit;
               pnl_pips = raw_pips prediction pair entry_price exit_price - slippage_pips;
               pip_value_usd = get_pip_value_in_usd pair;
               pnl_dollars = pnl_pips * pip_value_usd * lot_size;
               commission = calculate_commission cfg lot_size;
               net_pnl_dollars = pnl_dollars - commission;
               db1 = db\<lparr>trades :=
                       map (\<lambda>t. if t_trade_id t = tid
                                 then t\<lparr>t_exit_price := Some exit_price,
                                        t_outcome := Some outcome,
                                        t_pnl_pips := Some (py_round pnl_pips 1),
                                        t_pnl_dollars := Some (py_round net_pnl_dollars 2),
                                        t_commission := Some (py_round commission 2),
                                        t_verified_at := Some now\<rparr>
                                 else t)
                           (trades db)\<rparr>;
               db2 = update_account_balance cfg now db1 net_pnl_dollars outcome
           in (db2,
               Some \<lparr>tx_trade_id = tid, tx_exit_price = exit_price, tx_outcome = outcome,
                     tx_pnl_pips = py_round pnl_pips 1,
                     tx_pnl_dollars = py_round net_pnl_dollars 2,
                     tx_commission = py_round commission 2,
                     tx_slippage_pips = slippage_pips\<rparr>)))"

text \<open>A sequence of \<open>close_trade\<close> calls, each at its own clock reading.\<close>

record CloseCall =
  cc_now :: datetime
  cc_trade_id :: string
  cc_exit_price :: real
  cc_outcome :: string
  cc_is_stop_exit :: bool

definition close_call :: "Settings \<Rightarrow> Database \<Rightarrow> CloseCall \<Rightarrow> Database" where
  "close_call cfg db c =
     fst (close_trade cfg (cc_now c) db (cc_trade_id c) (cc_exit_price c) (cc_outcome c)
            (cc_is_stop_exit c))"

fun close_calls :: "Settings \<Rightarrow> Database \<Rightarrow> CloseCall list \<Rightarrow> Database" where
  "close_calls cfg db [] = db"
| "close_calls cfg db (c # cs) = close_calls cfg (close_call cfg db c) cs"

section \<open>Calendar arithmetic of \<open>datetime\<close>\<close>

text \<open>
  \<open>days_from_civil\<close> counts the days from 1970-01-01 in the proleptic Gregorian calendar
  and \<open>civil_from_days\<close> inverts it; together they give \<open>dt + timedelta(days=k)\<close>.
  \<open>weekday\<close> is Python's: Monday is 0 and Sunday is 6.
\<close>

definition days_from_civil :: "int \<Rightarrow> int \<Rightarrow> int \<Rightarrow> int" where
  "days_from_civil y m d =
     (let y' = (if m \<le> 2 then y - 1 else y);
          era = y' div 400;
          yoe = y' - era * 400;
          mp = (m + 9) mod 12;
          doy = (153 * mp + 2) div 5 + d - 1;
          doe = yoe * 365 + yoe div 4 - yoe div 100 + doy
      in era * 146097 + doe - 719468)"

definition civil_from_days :: "int \<Rightarrow> int \<times> int \<times> int" where
  "civil_from_days z0 =
     (let z = z0 + 719468;
          era = z div 146097;
          doe = z - era * 146097;
          yoe = (doe - doe div 1460 + doe div 36524 - doe div 146096) div 365;
          doy = doe - (365 * yoe + yoe div 4 - yoe div 100);
          mp = (5 * doy + 2) div 153;
          d = doy - (153 * mp + 2) div 5 + 1;
          m = (if mp < 10 then mp + 3 else mp - 9);
          y = yoe + era * 400
      in (if m \<le> 2 then y + 1 else y, m, d))"

definition weekday :: "datetime \<Rightarrow> int" where
  "weekday dt = (days_from_civil (year dt) (month dt) (day dt) + 3) mod 7"

definition add_days :: "datetime \<Rightarrow> int \<Rightarrow> datetime" where
  "add_days dt k =
     (let (y, m, d) = civil_from_days (days_from_civil (year dt) (month dt) (day dt) + k)
      in dt\<lparr>year := y, month := m, day := d\<rparr>)"

text \<open>The position of an instant on the time line, in microseconds; it orders instants.\<close>

definition dt_micros :: "datetime \<Rightarrow> int" where
  "dt_micros dt =
     (((days_from_civil (year dt) (month dt) (day dt) * 24 + hour dt) * 60 + minute dt) * 60
        + second dt) * 1000000 + microsecond dt"

definition dt_gt :: "datetime \<Rightarrow> datetime \<Rightarrow> bool" where
  "dt_gt a b = (dt_micros a > dt_micros b)"

section \<open>Session times (\<open>app/utils/session_utils.py\<close>)\<close>

text \<open>
  \<open>pytz\<close> resolves a local wall-clock time with the zone's rules. The rules in force since
  2007 are written out for the two local times the code localizes (08:00 and 13:00 in
  London, 09:30 and 13:30 in New York, none of them inside a changeover hour):
  America/New\_York is on daylight time (UTC-4, otherwise UTC-5) from the second Sunday of
  March up to, not including, the first Sunday of November; Europe/London is on summer
  time (UTC+1, otherwise UTC) from the last Sunday of March up to, not including, the
  last Sunday of October.
\<close>

definition weekday_of :: "int \<Rightarrow> int \<Rightarrow> int \<Rightarrow> int" where
  "weekday_of y m d = (days_from_civil y m d + 3) mod 7"

definition first_sunday :: "int \<Rightarrow> int \<Rightarrow> int" where
  "first_sunday y m = 1 + (6 - weekday_of y m 1) mod 7"

definition last_sunday_31 :: "int \<Rightarrow> int \<Rightarrow> int" where
  "last_sunday_31 y m = 31 - (weekday_of y m 31 + 1) mod 7"

definition ny_is_dst :: "int \<Rightarrow> int \<Rightarrow> int \<Rightarrow> bool" where
  "ny_is_dst y m d =
     ((3 < m \<and> m < 11) \<or> (m = 3 \<and> d \<ge> first_sunday y 3 + 7) \<or> (m = 11 \<and> d < first_sunday y 11))"

definition london_is_dst :: "int \<Rightarrow> int \<Rightarrow> int \<Rightarrow> bool" where
  "london_is_dst y m d =
     ((3 < m \<and> m < 10) \<or> (m = 3 \<and> d \<ge> last_sunday_31 y 3) \<or> (m = 10 \<and> d < last_sunday_31 y 10))"

record SessionInfo =
  si_hour :: int
  si_minute :: int
  si_name :: string

definition get_session_times_for_date :: "datetime \<Rightarrow> (string \<times> SessionInfo) list" where
  "get_session_times_for_date date_dt =
     (let y = year date_dt; m = month date_dt; d = day date_dt;
          london_off = (if london_is_dst y m d then 1 else 0);
          ny_off = (if ny_is_dst y m d then - 4 else - 5)
      in [(''Asian_Open'', \<lparr>si_hour = 1, si_minute = 0, si_name = ''Asian Open''\<rparr>),
          (''Asian_Close'', \<lparr>si_hour = 9, si_minute = 0, si_name = ''Asian Close''\<rparr>),
          (''London_Open'', \<lparr>si_hour = 8 - london_off, si_minute = 0, si_name = ''London Open''\<rparr>),
          (''London_Close'', \<lparr>si_hour = 13 - london_off, si_minute = 0, si_name = ''London Close''\<rparr>),
          (''NY_Open'', \<lparr>si_hour = 9 - ny_off, si_minute = 30, si_name = ''NY Open''\<rparr>),
          (''NY_Close'', \<lparr>si_hour = 13 - ny_off, si_minute = 30, si_name = ''NY Close''\<rparr>)])"

section \<open>Scheduler (\<open>app/services/scheduler.py\<close>)\<close>

subsection \<open>\<open>_get_next_session\<close>\<close>

text \<open>
  \<open>now\<close> is the clock reading \<open>datetime.now(timezone.utc)\<close>. A dictionary lookup with a
  missing key raises \<open>KeyError\<close>.
\<close>

datatype lookup_error = KeyError

text \<open>The inner loop over the session names for one \<open>check_date\<close>.\<close>

fun scan_sessions ::
  "datetime \<Rightarrow> datetime \<Rightarrow> (string \<times> SessionInfo) list \<Rightarrow> string list
     \<Rightarrow> lookup_error + (string \<times> datetime) option"
where
  "scan_sessions now check_date session_times [] = Inr None"
| "scan_sessions now check_date session_times (session_name # rest) =
     (case map_of session_times session_name of
        None \<Rightarrow> Inl KeyError
      | Some session_info \<Rightarrow>
          (let session_dt = check_date\<lparr>hour := si_hour session_info,
                                        minute := si_minute session_info,
                                        second := 0, microsecond := 0\<rparr>
           in if dt_gt session_dt now then Inr (Some (session_name, session_dt))
              else scan_sessions now check_date session_times rest))"

text \<open>The outer loop \<open>for day_offset in range(2)\<close>.\<close>

fun scan_days ::
  "datetime \<Rightarrow> datetime \<Rightarrow> int list \<Rightarrow> lookup_error + (string \<times> datetime) option"
where
  "scan_days now today [] = Inr None"
| "scan_days now today (day_offset # rest) =
     (let check_date = add_days today day_offset
      in if weekday check_date \<in> {5, 6} then scan_days now today rest
         else
           (case scan_sessions now check_date (get_session_times_for_date check_date)
                   [''Asian_Open'', ''London_Open'', ''NY_Open''] of
              Inl e \<Rightarrow> Inl e
            | Inr (Some r) \<Rightarrow> Inr (Some r)
            | Inr None \<Rightarrow> scan_days now today rest))"

definition get_next_session :: "datetime \<Rightarrow> lookup_error + (string \<times> datetime)" where
  "get_next_session now =
     (let today = now\<lparr>hour := 0, minute := 0, second := 0, microsecond := 0\<rparr>
      in case scan_days now today [0, 1] of
           Inl e \<Rightarrow> Inl e
         | Inr (Some r) \<Rightarrow> Inr r
         | Inr None \<Rightarrow>
             (let d0 = (7 - weekday today) mod 7;
                  days_until_monday = (if d0 = 0 then 7 else d0);
                  next_monday = add_days today days_until_monday
              in case map_of (get_session_times_for_date next_monday) ''Asian_Open'' of
                   None \<Rightarrow> Inl KeyError
                 | Some asian \<Rightarrow>
                     Inr (''Asian_Open'',
                          next_monday\<lparr>hour := si_hour asian, minute := si_minute asian\<rparr>)))"

subsection \<open>The body of the loop of \<open>_execute_session\<close>\<close>

text \<open>
  The predictor's answer after the defaults of \<open>result.get\<close> are applied.
\<close>

record Prediction =
  p_prediction :: string
  p_conviction :: int
  p_full_analysis :: "string option"
  p_model_key :: string

record ActiveTrade =
  at_pair :: string
  at_session_name :: string
  at_session_datetime :: datetime
  at_prediction :: string
  at_entry_price :: real
  at_take_profit :: real
  at_stop_loss :: real
  at_model :: string

record Scheduler =
  s_db :: Database
  s_price_stream :: "PriceStream option"
  s_active_trades :: "(string \<times> ActiveTrade) list"

text \<open>
  One instrument whose chart is cached, from the predictor's answer on.
  \<open>ohlc_close\<close> is the last close of the cached bars, \<open>None\<close> when the cache has no bars
  for the pair; \<open>new_id\<close> is the id \<open>open_trade\<close> will draw. The flag tells whether a trade
  was opened. An exception raised by \<open>open_trade\<close> is caught by the loop's
  \<open>except Exception\<close>, which prints it and goes on to the next pair.
\<close>

definition execute_pair ::
  "Settings \<Rightarrow> datetime \<Rightarrow> string \<Rightarrow> string \<Rightarrow> datetime \<Rightarrow> real \<Rightarrow> real option \<Rightarrow> Scheduler
     \<Rightarrow> string \<Rightarrow> Prediction \<Rightarrow> Scheduler \<times> bool"
where
  "execute_pair cfg now new_id session_name session_dt bal ohlc_close st pair result =
     (let prediction = p_prediction result; conviction = p_conviction result
      in if prediction = ''NEUTRAL'' then (st, False)
         else
           (let live =
                  (case s_price_stream st of
                     None \<Rightarrow> None
                   | Some ps \<Rightarrow>
                       if is_connected ps
                       then (case get_quote ps pair of
                               None \<Rightarrow> None
                             | Some q \<Rightarrow> Some (if prediction = ''BULLISH'' then ask q else bid q))
                       else None);
                entry_opt = (case live of None \<Rightarrow> ohlc_close | Some e \<Rightarrow> Some e)
            in case entry_opt of
                 None \<Rightarrow> (st, False)
               | Some entry_price \<Rightarrow>
                   (case calculate_risk_parameters cfg (s_db st) pair session_name prediction
                           entry_price bal of
                      None \<Rightarrow> (st, False)
                    | Some risk_params \<Rightarrow>
                        (case open_trade cfg now new_id (s_db st) risk_params prediction
                                conviction session_dt (p_full_analysis result) of
                           Inl err \<Rightarrow> (st, False)
                         | Inr (db', trade) \<Rightarrow>
                        (let active =
                               AList.update (te_trade_id trade)
                                 \<lparr>at_pair = pair, at_session_name = session_name,
                                  at_session_datetime = session_dt, at_prediction = prediction,
                                  at_entry_price = te_entry_price trade,
                                  at_take_profit = te_take_profit trade,
                                  at_stop_loss = te_stop_loss trade,
                                  at_model = p_model_key result\<rparr>
                                 (s_active_trades st);
                             stream' =
                               (case s_price_stream st of
                                  None \<Rightarrow> None
                                | Some ps \<Rightarrow>
                                    if is_connected ps
                                    then Some (add_alert ps
                                           \<lparr>trade_id = te_trade_id trade, a_pair = pair,
                                            direction = prediction,
                                            a_entry_price = te_entry_price trade,
                                            a_take_profit = te_take_profit trade,
                                            a_stop_loss = te_stop_loss trade,
                                            triggered = False, trigger_type = None,
                                            trigger_price = None, trigger_time = None\<rparr>)
                                    else Some ps)
                         in (st\<lparr>s_db := db', s_price_stream := stream',
                                s_active_trades := active\<rparr>, True))))))"

section \<open>Rolling window and percentile materialization\<close>

text \<open>
  Instants of the rolling window are points of a linear time axis (\<^typ>\<open>int\<close>).
  \<open>NOW() - INTERVAL '6 months'\<close> is computed by the database; it enters as the function
  \<open>six_months_before\<close>, of which the theorems assume only that a later \<open>NOW()\<close> gives a later
  (or equal) result.
\<close>

type_synonym rw_key = "string \<times> string \<times> int \<times> string"

definition rw_key :: "RollingRow \<Rightarrow> rw_key" where
  "rw_key r = (rw_pair r, rw_session_name r, rw_session_datetime r, rw_model r)"

text \<open>
  Modelled from the spec: the \<open>in_window\<close> column of \<open>rolling_window\<close>, which the UPDATE
  statements of the code read and write but no migration under \<open>alembic/versions\<close>
  declares. An excursion record is in the window until it is expired, so the INSERT,
  which does not mention the column, leaves it TRUE.
\<close>

definition in_window_default :: bool where
  "in_window_default = True"

text \<open>
  \<open>add_to_rolling_window\<close>: INSERT, and on a conflict on
  \<open>(pair, session_name, session_datetime, model)\<close> an UPDATE of the six excursion columns.
\<close>

definition add_to_rolling_window ::
  "Database \<Rightarrow> string \<Rightarrow> string \<Rightarrow> int \<Rightarrow> string \<Rightarrow> bool \<Rightarrow> real \<Rightarrow> real \<Rightarrow> string
     \<Rightarrow> bool option \<Rightarrow> int option \<Rightarrow> int option \<Rightarrow> Database"
where
  "add_to_rolling_window db pair session_name session_datetime prediction correct mfe_pips
       mae_pips model mfe_first time_to_mfe_minutes time_to_mae_minutes =
     (let k = (pair, session_name, session_datetime, model)
      in if k \<in> set (map rw_key (rolling_window db))
         then db\<lparr>rolling_window :=
                   map (\<lambda>r. if rw_key r = k
                             then r\<lparr>rw_correct := correct, rw_mfe_pips := mfe_pips,
                                    rw_mae_pips := mae_pips, rw_mfe_first := mfe_first,
                                    rw_time_to_mfe_minutes := time_to_mfe_minutes,
                                    rw_time_to_mae_minutes := time_to_mae_minutes\<rparr>
                             else r)
                       (rolling_window db)\<rparr>
         else db\<lparr>rolling_window :=
                   rolling_window db @
                     [\<lparr>rw_pair = pair, rw_session_name = session_name,
                       rw_session_datetime = session_datetime, rw_model = model,
                       rw_prediction = prediction, rw_correct = correct,
                       rw_mfe_pips = mfe_pips, rw_mae_pips = mae_pips,
                       rw_mfe_first = mfe_first,
                       rw_time_to_mfe_minutes = time_to_mfe_minutes,
                       rw_time_to_mae_minutes = time_to_mae_minutes,
                       in_window = in_window_default\<rparr>]\<rparr>)"

text \<open>\<open>cleanup_old_rolling_data\<close>: returns the database and the number of rows updated.\<close>

definition cleanup_old_rolling_data ::
  "(int \<Rightarrow> int) \<Rightarrow> int \<Rightarrow> Database \<Rightarrow> Database \<times> int"
where
  "cleanup_old_rolling_data six_months_before now db =
     (let hit = (\<lambda>r. in_window r = True \<and> rw_session_datetime r < six_months_before now)
      in (db\<lparr>rolling_window :=
               map (\<lambda>r. if hit r then r\<lparr>in_window := False\<rparr> else r) (rolling_window db)\<rparr>,
          int (length (filter hit (rolling_window db)))))"

text \<open>
  \<open>PERCENTILE_CONT(p) WITHIN GROUP (ORDER BY v)\<close>: linear interpolation between the two
  ranked values around row number \<open>p * (n - 1)\<close> of the sorted group.
\<close>

definition percentile_cont :: "real \<Rightarrow> real list \<Rightarrow> real" where
  "percentile_cont p vs =
     (let sorted_vs = sort vs;
          rn = p * (real (length vs) - 1);
          frn = \<lfloor>rn\<rfloor>;
          crn = \<lceil>rn\<rceil>
      in if frn = crn then sorted_vs ! nat frn
         else (of_int crn - rn) * sorted_vs ! nat frn + (rn - of_int frn) * sorted_vs ! nat crn)"

text \<open>The query of the materialized view of migration 002, evaluated at \<open>now\<close>.\<close>

definition view_group :: "int \<Rightarrow> string \<times> string \<times> string \<Rightarrow> RollingRow list \<Rightarrow> PercentileRow" where
  "view_group now k g =
     \<lparr>pr_pair = fst k, pr_session_name = fst (snd k), pr_model = snd (snd k),
      pr_sample_count = int (length g),
      pr_mfe_p25 = percentile_cont (25 / 100) (map rw_mfe_pips g),
      pr_mfe_p50 = percentile_cont (50 / 100) (map rw_mfe_pips g),
      pr_mfe_p75 = percentile_cont (75 / 100) (map rw_mfe_pips g),
      pr_mae_p25 = percentile_cont (25 / 100) (map rw_mae_pips g),
      pr_mae_p50 = percentile_cont (50 / 100) (map rw_mae_pips g),
      pr_mae_p75 = percentile_cont (75 / 100) (map rw_mae_pips g),
      pr_accuracy_pct =
        (sum_list (map (\<lambda>r. if rw_correct r then 1 else 0) g) / real (length g)) * 100,
      pr_updated_at = now\<rparr>"

definition group_key :: "RollingRow \<Rightarrow> string \<times> string \<times> string" where
  "group_key r = (rw_pair r, rw_session_name r, rw_model r)"

definition percentile_targets_query ::
  "(int \<Rightarrow> int) \<Rightarrow> int \<Rightarrow> RollingRow list \<Rightarrow> PercentileRow list"
where
  "percentile_targets_query six_months_before now rows =
     (let selected = filter (\<lambda>r. rw_session_datetime r \<ge> six_months_before now) rows
      in map (\<lambda>k. view_group now k (filter (\<lambda>r. group_key r = k) selected))
           (remdups (map group_key selected)))"

text \<open>\<open>refresh_percentiles\<close>: \<open>REFRESH MATERIALIZED VIEW\<close> re-runs the query.\<close>

definition refresh_percentiles :: "(int \<Rightarrow> int) \<Rightarrow> int \<Rightarrow> Database \<Rightarrow> Database" where
  "refresh_percentiles six_months_before now db =
     db\<lparr>percentile_targets := percentile_targets_query six_months_before now (rolling_window db)\<rparr>"

text \<open>
  The operations on the rolling window that the scheduler issues, each at the clock
  reading paired with it, and a run of them.
\<close>

record AppendArgs =
  ap_pair :: string
  ap_session_name :: string
  ap_session_datetime :: int
  ap_prediction :: string
  ap_correct :: bool
  ap_mfe_pips :: real
  ap_mae_pips :: real
  ap_model :: string

datatype rw_op = Append AppendArgs | Expire | Refresh

fun rw_step :: "(int \<Rightarrow> int) \<Rightarrow> Database \<Rightarrow> int \<times> rw_op \<Rightarrow> Database" where
  "rw_step smb db (now, Append a) =
     add_to_rolling_window db (ap_pair a) (ap_session_name a) (ap_session_datetime a)
       (ap_prediction a) (ap_correct a) (ap_mfe_pips a) (ap_mae_pips a) (ap_model a)
       None None None"
| "rw_step smb db (now, Expire) = fst (cleanup_old_rolling_data smb now db)"
| "rw_step smb db (now, Refresh) = refresh_percentiles smb now db"

fun rw_run :: "(int \<Rightarrow> int) \<Rightarrow> Database \<Rightarrow> (int \<times> rw_op) list \<Rightarrow> Database" where
  "rw_run smb db [] = db"
| "rw_run smb db (e # es) = rw_run smb (rw_step smb db e) es"

definition empty_database :: Database where
  "empty_database = \<lparr>trades = [], account = None, rolling_window = [], percentile_targets = []\<rparr>"

section \<open>Concrete scenarios\<close>

text \<open>The inputs of the end-to-end scenarios, used to run the model.\<close>

definition mk_datetime :: "int \<Rightarrow> int \<Rightarrow> int \<Rightarrow> int \<Rightarrow> int \<Rightarrow> datetime" where
  "mk_datetime y m d h mi =
     \<lparr>year = y, month = m, day = d, hour = h, minute = mi, second = 0, microsecond = 0\<rparr>"

text \<open>S1: the clock reads 2024-03-10T06:00:00Z.\<close>

definition S1_now :: datetime where
  "S1_now = mk_datetime 2024 3 10 6 0"

text \<open>S2: a Long alert on EURUSD and the third tick, whose mid is 1.1051.\<close>

definition S2_alert :: PriceAlert where
  "S2_alert =
     \<lparr>trade_id = ''S2'', a_pair = ''EURUSD'', direction = ''BULLISH'',
      a_entry_price = 11000 / 10000, a_take_profit = 11050 / 10000,
      a_stop_loss = 10950 / 10000, triggered = False, trigger_type = None,
      trigger_price = None, trigger_time = None\<rparr>"

definition S2_quote :: Quote where
  "S2_quote =
     \<lparr>q_pair = ''EURUSD'', bid = 11050 / 10000, ask = 11052 / 10000,
      timestamp = mk_datetime 2024 3 11 8 5\<rparr>"

definition S2_stream :: PriceStream where
  "S2_stream =
     \<lparr>api_key = ''key'', has_on_alert = True, ws = Some WsOpen,
      quotes = [(''EURUSD'', S2_quote)], alerts = [(''S2'', S2_alert)],
      subscribed_pairs = {''EURUSD''}, running = True, recv_task = Some TaskPending,
      connected = True\<rparr>"

text \<open>
  A database whose materialization has one row for (EURUSD, London\_Open) with 40
  samples, and the risk parameters the engine derives from it for a Bullish entry at
  1.1000 with a balance of 10000.
\<close>

definition demo_row :: PercentileRow where
  "demo_row =
     \<lparr>pr_pair = ''EURUSD'', pr_session_name = ''London_Open'', pr_model = ''claude_haiku_45'',
      pr_sample_count = 40, pr_mfe_p25 = 10, pr_mfe_p50 = 20, pr_mfe_p75 = 30,
      pr_mae_p25 = 8, pr_mae_p50 = 15, pr_mae_p75 = 25, pr_accuracy_pct = 55,
      pr_updated_at = 0\<rparr>"

definition demo_db :: Database where
  "demo_db = empty_database\<lparr>percentile_targets := [demo_row]\<rparr>"

definition demo_rp :: RiskParameters where
  "demo_rp =
     \<lparr>rp_pair = ''EURUSD'', rp_session_name = ''London_Open'', rp_direction = ''BULLISH'',
      rp_entry_price = 11000 / 10000, rp_take_profit = 11030 / 10000,
      rp_stop_loss = 10985 / 10000, rp_tp_pips = 30, rp_sl_pips = 15,
      rp_lot_size = 103 / 100, rp_risk_dollars = 155, rp_spread_pips = 1 / 10,
      rp_percentile_source = ''P75/P50''\<rparr>"

text \<open>S3: the same row with only 29 samples, and a Bullish prediction of conviction 9.\<close>

definition S3_db :: Database where
  "S3_db = empty_database\<lparr>percentile_targets := [demo_row\<lparr>pr_sample_count := 29\<rparr>]\<rparr>"

definition S3_prediction :: Prediction where
  "S3_prediction =
     \<lparr>p_prediction = ''BULLISH'', p_conviction = 9, p_full_analysis = None,
      p_model_key = ''claude_haiku_45''\<rparr>"

definition S3_scheduler :: Scheduler where
  "S3_scheduler = \<lparr>s_db = S3_db, s_price_stream = None, s_active_trades = []\<rparr>"

text \<open>An open position: the row \<open>open_trade\<close> writes, with the given essentials.\<close>

definition mk_trade :: "string \<Rightarrow> string \<Rightarrow> string \<Rightarrow> real \<Rightarrow> real \<Rightarrow> real \<Rightarrow> real \<Rightarrow> Trade" where
  "mk_trade tid pair prediction entry tp sl lot =
     \<lparr>t_trade_id = tid, t_pair = pair, t_session_name = ''London_Open'',
      t_session_datetime = mk_datetime 2024 3 11 8 0, t_prediction = prediction,
      t_conviction = 9, t_full_analysis = None, t_entry_price = entry, t_spread_pips = 1 / 10,
      t_stop_loss = sl, t_take_profit = tp, t_sl_pips = 15, t_tp_pips = 30, t_lot_size = lot,
      t_risk_pct = 155 / 100, t_mfe_percentile = ''P75'', t_mae_percentile = ''P50'',
      t_created_at = mk_datetime 2024 3 11 8 0, t_exit_price = None, t_outcome = None,
      t_pnl_pips = None, t_pnl_dollars = None, t_commission = None, t_verified_at = None\<rparr>"

text \<open>S4: a Short USDJPY position entered at 150.00, closed at 149.85 on timeout.\<close>

definition S4_trade :: Trade where
  "S4_trade = mk_trade ''S4'' ''USDJPY'' ''BEARISH'' 150 (14940 / 100) (15060 / 100) (1 / 10)"

definition S4_db :: Database where
  "S4_db = empty_database\<lparr>trades := [S4_trade]\<rparr>"

text \<open>S6: a Long EURUSD position, closed at 1.1050 as a win, once and then once more.\<close>

definition S6_trade :: Trade where
  "S6_trade =
     mk_trade ''S6'' ''EURUSD'' ''BULLISH'' (11000 / 10000) (11050 / 10000) (10950 / 10000) 1"

definition S6_db :: Database where
  "S6_db = empty_database\<lparr>trades := [S6_trade]\<rparr>"

definition S6_db1 :: Database where
  "S6_db1 =
     fst (close_trade default_settings (mk_datetime 2024 3 11 9 0) S6_db ''S6'' (11050 / 10000)
            ''WIN'' False)"

definition S6_db2 :: Database where
  "S6_db2 =
     fst (close_trade default_settings (mk_datetime 2024 3 11 9 0) S6_db1 ''S6'' (11050 / 10000)
            ''WIN'' False)"

text \<open>
  A run of the rolling window, in days: a record of day 0 and one of day 190 are
  appended, the window is expired and the statistics refreshed on day 200, six months
  counted as 180 days.
\<close>

definition demo_append :: "int \<Rightarrow> real \<Rightarrow> AppendArgs" where
  "demo_append t mfe =
     \<lparr>ap_pair = ''EURUSD'', ap_session_name = ''London_Open'', ap_session_datetime = t,
      ap_prediction = ''BULLISH'', ap_correct = True, ap_mfe_pips = mfe, ap_mae_pips = 7,
      ap_model = ''claude_haiku_45''\<rparr>"

definition demo_run :: "(int \<times> rw_op) list" where
  "demo_run =
     [(0, Append (demo_append 0 12)), (190, Append (demo_append 190 20)),
      (200, Expire), (200, Refresh)]"

text \<open>
  Settings whose minimum lot size, 0.014, is not a multiple of 0.01 (the settings are
  read from the environment without validation).
\<close>

definition off_grid_settings :: Settings where
  "off_grid_settings = default_settings\<lparr>min_lot_size := 14 / 1000\<rparr>"

section \<open>The formulas of the specification\<close>

text \<open>
  The profit and loss of a close as the specification words it, to be compared with what
  \<open>close_trade\<close> computes: pip movement by direction minus slippage, and cash as pips
  times pip cash per lot times lots minus the roundtrip commission.
\<close>

definition spec_pnl_pips :: "bool \<Rightarrow> real \<Rightarrow> real \<Rightarrow> real \<Rightarrow> bool \<Rightarrow> real" where
  "spec_pnl_pips long tick_size entry exit_price was_stop_exit =
     (if long then (exit_price - entry) / tick_size else (entry - exit_price) / tick_size)
       - (if was_stop_exit then 5 / 10 else 1 / 10)"

definition spec_net_cash :: "real \<Rightarrow> real \<Rightarrow> real \<Rightarrow> real \<Rightarrow> real" where
  "spec_net_cash pnl_pips pip_cash_per_lot lot_size commission_rate =
     pnl_pips * pip_cash_per_lot * lot_size - 2 * commission_rate * lot_size"

text \<open>The account invariants of the specification.\<close>

definition account_inv :: "Account \<Rightarrow> bool" where
  "account_inv a \<longleftrightarrow>
     winning_trades a + losing_trades a \<le> total_trades a \<and>
     peak_balance a \<ge> balance a \<and>
     max_drawdown_pct a \<ge> 0"

text \<open>The lot limits are on the 0.01 grid and in order (the defaults are 0.01 and 5.0).\<close>

definition lot_limits_ok :: "Settings \<Rightarrow> bool" where
  "lot_limits_ok cfg \<longleftrightarrow>
     min_lot_size cfg \<le> max_lot_size cfg \<and>
     of_int \<lfloor>min_lot_size cfg * 100\<rfloor> = min_lot_size cfg * 100 \<and>
     of_int \<lfloor>max_lot_size cfg * 100\<rfloor> = max_lot_size cfg * 100"

text \<open>A stop-out of the S6 position, as one more call in a sequence.\<close>

definition S6_call :: CloseCall where
  "S6_call =
     \<lparr>cc_now = mk_datetime 2024 3 11 10 0, cc_trade_id = ''S6'', cc_exit_price = 10950 / 10000,
      cc_outcome = ''LOSS'', cc_is_stop_exit = True\<rparr>"

section \<open>Notions used in the statements and proofs\<close>

text \<open>
  The values \<open>close_trade\<close> computes for a position \<open>tr\<close>: the net cash result
  (\<open>net_pnl_dollars\<close>), the \<open>TradeExit\<close> it returns, and the row after the UPDATE.
\<close>

definition net_of :: "Settings \<Rightarrow> Trade \<Rightarrow> real \<Rightarrow> bool \<Rightarrow> real" where
  "net_of cfg tr e s =
     (raw_pips (t_prediction tr) (t_pair tr) (t_entry_price tr) e - calculate_exit_slippage s)
        * get_pip_value_in_usd (t_pair tr) * t_lot_size tr
      - calculate_commission cfg (t_lot_size tr)"

definition exit_of :: "Settings \<Rightarrow> Trade \<Rightarrow> string \<Rightarrow> real \<Rightarrow> string \<Rightarrow> bool \<Rightarrow> TradeExit" where
  "exit_of cfg tr tid e oc s =
     \<lparr>tx_trade_id = tid, tx_exit_price = e, tx_outcome = oc,
      tx_pnl_pips = py_round (raw_pips (t_prediction tr) (t_pair tr) (t_entry_price tr) e
                                - calculate_exit_slippage s) 1,
      tx_pnl_dollars = py_round (net_of cfg tr e s) 2,
      tx_commission = py_round (calculate_commission cfg (t_lot_size tr)) 2,
      tx_slippage_pips = calculate_exit_slippage s\<rparr>"

definition stamp :: "TradeExit \<Rightarrow> datetime \<Rightarrow> Trade \<Rightarrow> Trade" where
  "stamp x now t =
     t\<lparr>t_exit_price := Some (tx_exit_price x), t_outcome := Some (tx_outcome x),
       t_pnl_pips := Some (tx_pnl_pips x), t_pnl_dollars := Some (tx_pnl_dollars x),
       t_commission := Some (tx_commission x), t_verified_at := Some now\<rparr>"

text \<open>The drawdown percentage \<open>update_account_balance\<close> computes from peak and new balance.\<close>

definition drawdown_of :: "real \<Rightarrow> real \<Rightarrow> real" where
  "drawdown_of peak nb = (if peak > 0 then ((peak - nb) / peak) * 100 else 0)"

text \<open>The account row, when there is one, satisfies the invariants.\<close>

definition db_account_inv :: "Database \<Rightarrow> bool" where
  "db_account_inv db = (case account db of None \<Rightarrow> True | Some a \<Rightarrow> account_inv a)"

text \<open>
  The state invariant behind the materialization: a record whose \<open>in_window\<close> flag is
  cleared is older than six months at clock reading \<open>t\<close>.
\<close>

definition rw_inv :: "(int \<Rightarrow> int) \<Rightarrow> int \<Rightarrow> Database \<Rightarrow> bool" where
  "rw_inv smb t db \<longleftrightarrow>
     (\<forall>r \<in> set (rolling_window db). \<not> in_window r \<longrightarrow> rw_session_datetime r < smb t)"

text \<open>Six months counted as 180 days, on a time axis in days (for the demonstration run).\<close>

definition demo_six_months_before :: "int \<Rightarrow> int" where
  "demo_six_months_before t = t - 180"

section \<open>Properties: price stream\<close>

lemma check_alerts_loop_keys:
  "map fst (fst (check_alerts_loop p q al)) = map fst al"
  by (induction al) (auto split: prod.splits)

lemma check_alerts_loop_entry:
  "(tid, a) \<in> set al \<Longrightarrow> (tid, fst (check_alert p q a)) \<in> set (fst (check_alerts_loop p q al))"
  by (induction al) (auto split: prod.splits)

lemma check_alerts_lookup:
  assumes "(tid, a) \<in> set (alerts s)" and "distinct (map fst (alerts s))"
  shows "get_alert (fst (check_alerts s p q)) tid = Some (fst (check_alert p q a))"
proof -
  let ?al = "fst (check_alerts_loop p q (alerts s))"
  have "(tid, fst (check_alert p q a)) \<in> set ?al"
    using assms(1) by (rule check_alerts_loop_entry)
  moreover have "distinct (map fst ?al)"
    using assms(2) by (simp add: check_alerts_loop_keys)
  ultimately have "map_of ?al tid = Some (fst (check_alert p q a))"
    by (rule map_of_is_SomeI [rotated])
  then show ?thesis
    by (auto simp add: get_alert_def check_alerts_def split: prod.splits)
qed

lemma check_alert_bullish:
  assumes "a_pair a = p" "\<not> triggered a" "direction a = ''BULLISH''"
  shows "(triggered (fst (check_alert p q a)) \<and> trigger_type (fst (check_alert p q a)) = Some ''TP'')
           \<longleftrightarrow> mid q \<ge> a_take_profit a"
    and "(triggered (fst (check_alert p q a)) \<and> trigger_type (fst (check_alert p q a)) = Some ''SL'')
           \<longleftrightarrow> mid q \<le> a_stop_loss a \<and> \<not> mid q \<ge> a_take_profit a"
  using assms by (auto simp: check_alert_def trigger_decision_def Let_def)

lemma check_alert_bearish:
  assumes "a_pair a = p" "\<not> triggered a" "direction a = ''BEARISH''"
  shows "(triggered (fst (check_alert p q a)) \<and> trigger_type (fst (check_alert p q a)) = Some ''TP'')
           \<longleftrightarrow> mid q \<le> a_take_profit a"
    and "(triggered (fst (check_alert p q a)) \<and> trigger_type (fst (check_alert p q a)) = Some ''SL'')
           \<longleftrightarrow> mid q \<ge> a_stop_loss a \<and> \<not> mid q \<le> a_take_profit a"
  using assms by (auto simp: check_alert_def trigger_decision_def Let_def)

lemma check_alert_stamp:
  assumes "a_pair a = p" "\<not> triggered a" "triggered (fst (check_alert p q a))"
  shows "trigger_price (fst (check_alert p q a)) = Some (mid q)"
    and "trigger_time (fst (check_alert p q a)) = Some (timestamp q)"
  using assms by (auto simp: check_alert_def trigger_decision_def Let_def split: if_splits)

text \<open>
  Claim C3. On a quote for instrument \<open>p\<close>, every alert registered for \<open>p\<close> and not yet
  triggered is decided by the mid price alone. A Long (BULLISH) alert becomes a TP
  trigger exactly when \<open>mid \<ge> take_profit\<close>, and an SL trigger exactly when
  \<open>mid \<le> stop_loss\<close> and the TP test has failed; a Short (BEARISH) alert is the mirror
  image. TP is tested first, so a quote that satisfies both tests triggers TP and not
  SL; when the levels are in their usual order (stop-loss below take-profit for Long,
  above it for Short) both tests cannot hold at once and SL is triggered exactly when
  the mid is at or beyond the stop-loss. A triggered alert is stamped with the mid
  price and the quote's timestamp.
\<close>

theorem check_alerts_tp_before_sl:
  assumes "(tid, a) \<in> set (alerts s)" and "distinct (map fst (alerts s))"
    and "a_pair a = p" and "\<not> triggered a"
  shows "\<exists>a'. get_alert (fst (check_alerts s p q)) tid = Some a' \<and>
           (direction a = ''BULLISH'' \<longrightarrow>
              ((triggered a' \<and> trigger_type a' = Some ''TP'') \<longleftrightarrow> mid q \<ge> a_take_profit a) \<and>
              ((triggered a' \<and> trigger_type a' = Some ''SL'') \<longleftrightarrow>
                 mid q \<le> a_stop_loss a \<and> \<not> mid q \<ge> a_take_profit a) \<and>
              (a_stop_loss a < a_take_profit a \<longrightarrow>
                 ((triggered a' \<and> trigger_type a' = Some ''SL'') \<longleftrightarrow> mid q \<le> a_stop_loss a))) \<and>
           (direction a = ''BEARISH'' \<longrightarrow>
              ((triggered a' \<and> trigger_type a' = Some ''TP'') \<longleftrightarrow> mid q \<le> a_take_profit a) \<and>
              ((triggered a' \<and> trigger_type a' = Some ''SL'') \<longleftrightarrow>
                 mid q \<ge> a_stop_loss a \<and> \<not> mid q \<le> a_take_profit a) \<and>
              (a_take_profit a < a_stop_loss a \<longrightarrow>
                 ((triggered a' \<and> trigger_type a' = Some ''SL'') \<longleftrightarrow> mid q \<ge> a_stop_loss a))) \<and>
           (triggered a' \<longrightarrow> trigger_price a' = Some (mid q) \<and> trigger_time a' = Some (timestamp q))"
proof -
  let ?a' = "fst (check_alert p q a)"
  have look: "get_alert (fst (check_alerts s p q)) tid = Some ?a'"
    using assms(1,2) by (rule check_alerts_lookup)
  have long: "direction a = ''BULLISH'' \<longrightarrow>
              ((triggered ?a' \<and> trigger_type ?a' = Some ''TP'') \<longleftrightarrow> mid q \<ge> a_take_profit a) \<and>
              ((triggered ?a' \<and> trigger_type ?a' = Some ''SL'') \<longleftrightarrow>
                 mid q \<le> a_stop_loss a \<and> \<not> mid q \<ge> a_take_profit a)"
    using check_alert_bullish [OF assms(3,4)] by blast
  then have long': "direction a = ''BULLISH'' \<longrightarrow> a_stop_loss a < a_take_profit a \<longrightarrow>
              ((triggered ?a' \<and> trigger_type ?a' = Some ''SL'') \<longleftrightarrow> mid q \<le> a_stop_loss a)"
    by auto
  have short: "direction a = ''BEARISH'' \<longrightarrow>
              ((triggered ?a' \<and> trigger_type ?a' = Some ''TP'') \<longleftrightarrow> mid q \<le> a_take_profit a) \<and>
              ((triggered ?a' \<and> trigger_type ?a' = Some ''SL'') \<longleftrightarrow>
                 mid q \<ge> a_stop_loss a \<and> \<not> mid q \<le> a_take_profit a)"
    using check_alert_bearish [OF assms(3,4)] by blast
  then have short': "direction a = ''BEARISH'' \<longrightarrow> a_take_profit a < a_stop_loss a \<longrightarrow>
              ((triggered ?a' \<and> trigger_type ?a' = Some ''SL'') \<longleftrightarrow> mid q \<ge> a_stop_loss a)"
    by auto
  have st: "triggered ?a' \<longrightarrow>
      trigger_price ?a' = Some (mid q) \<and> trigger_time ?a' = Some (timestamp q)"
    using check_alert_stamp [OF assms(3,4)] by blast
  from look long long' short short' st show ?thesis by blast
qed

text \<open>
  The theorem at scenario S2: the tick with mid 1.1051 triggers TP on the Long alert with
  take-profit 1.1050, at trigger price 1.1051.
\<close>

theorem check_alerts_tp_before_sl_witness:
  "(''S2'', S2_alert) \<in> set (alerts S2_stream) \<and> distinct (map fst (alerts S2_stream)) \<and>
   a_pair S2_alert = ''EURUSD'' \<and> \<not> triggered S2_alert \<and>
   (\<exists>a'. get_alert (fst (check_alerts S2_stream ''EURUSD'' S2_quote)) ''S2'' = Some a' \<and>
         triggered a' \<and> trigger_type a' = Some ''TP'' \<and>
         trigger_price a' = Some (11051 / 10000))"
proof -
  have h1: "(''S2'', S2_alert) \<in> set (alerts S2_stream)"
    and h2: "distinct (map fst (alerts S2_stream))"
    by (simp_all add: S2_stream_def)
  have h3: "a_pair S2_alert = ''EURUSD''" and h4: "\<not> triggered S2_alert"
    and d: "direction S2_alert = ''BULLISH''"
    by (simp_all add: S2_alert_def)
  have m: "mid S2_quote = 11051 / 10000" "mid S2_quote \<ge> a_take_profit S2_alert"
    by (simp_all add: mid_def S2_quote_def S2_alert_def)
  from check_alerts_tp_before_sl [OF h1 h2 h3 h4, of S2_quote] d m
  have "\<exists>a'. get_alert (fst (check_alerts S2_stream ''EURUSD'' S2_quote)) ''S2'' = Some a' \<and>
         triggered a' \<and> trigger_type a' = Some ''TP'' \<and>
         trigger_price a' = Some (11051 / 10000)"
    by auto
  with h1 h2 h3 h4 show ?thesis by blast
qed

text \<open>
  Claim C9, as stated, fails: \<open>disconnect\<close> never touches \<open>_alerts\<close>. The stream of
  scenario S2 holds one alert, and after \<open>disconnect\<close> it still holds that alert.
\<close>

theorem disconnect_keeps_alerts_counterexample:
  "alerts S2_stream \<noteq> [] \<and> alerts (fst (disconnect S2_stream)) = alerts S2_stream \<and>
   snd (disconnect S2_stream) = None"
  by (simp add: disconnect_def S2_stream_def Let_def)

text \<open>
  Claim C9, amended. \<open>disconnect\<close> always clears the running and connected flags and
  requests cancellation of a pending receive task, and it leaves the registered alerts,
  the API key and the alert callback as they were. Unless the receive task had already
  died with an exception (awaiting it then raises, and \<open>disconnect\<close> stops there), it
  also drops the websocket handle and empties the latest-quote table and the
  subscription set.
\<close>

theorem disconnect_effect:
  "running (fst (disconnect s)) = False \<and> connected (fst (disconnect s)) = False \<and>
   recv_task (fst (disconnect s)) = map_option cancel (recv_task s) \<and>
   alerts (fst (disconnect s)) = alerts s \<and>
   api_key (fst (disconnect s)) = api_key s \<and>
   has_on_alert (fst (disconnect s)) = has_on_alert s \<and>
   (recv_task s \<noteq> Some TaskFailed \<longrightarrow>
      snd (disconnect s) = None \<and> ws (fst (disconnect s)) = None \<and>
      \<not> is_connected (fst (disconnect s)) \<and>
      quotes (fst (disconnect s)) = [] \<and> subscribed_pairs (fst (disconnect s)) = {})"
proof (cases "recv_task s")
  case None
  then show ?thesis
    by (simp add: disconnect_def Let_def is_connected_def split: option.splits)
next
  case (Some t)
  then show ?thesis
    by (cases t) (simp_all add: disconnect_def Let_def is_connected_def split: option.splits)
qed

theorem disconnect_effect_witness:
  "recv_task S2_stream \<noteq> Some TaskFailed \<and>
   quotes S2_stream \<noteq> [] \<and> subscribed_pairs S2_stream \<noteq> {} \<and>
   quotes (fst (disconnect S2_stream)) = [] \<and>
   subscribed_pairs (fst (disconnect S2_stream)) = {} \<and>
   ws (fst (disconnect S2_stream)) = None \<and>
   recv_task (fst (disconnect S2_stream)) = Some TaskCancelled \<and>
   alerts (fst (disconnect S2_stream)) = [(''S2'', S2_alert)]"
proof -
  have h: "recv_task S2_stream \<noteq> Some TaskFailed"
    and q: "quotes S2_stream \<noteq> []" "subscribed_pairs S2_stream \<noteq> {}"
    and r: "recv_task S2_stream = Some TaskPending" "alerts S2_stream = [(''S2'', S2_alert)]"
    by (simp_all add: S2_stream_def)
  from disconnect_effect [of S2_stream] h q r show ?thesis by simp
qed

section \<open>Properties: trade executor\<close>

lemma find_map_update:
  assumes "\<And>t. t_trade_id (f t) = t_trade_id t"
  shows "find (\<lambda>t. t_trade_id t = tid) (map (\<lambda>t. if t_trade_id t = tid then f t else t) ts)
           = map_option f (find (\<lambda>t. t_trade_id t = tid) ts)"
  by (induction ts) (auto simp: assms)

lemma map_update_twice:
  assumes "\<And>t. t_trade_id (f t) = t_trade_id t" and "\<And>t. t_trade_id (g t) = t_trade_id t"
  shows "map (\<lambda>t. if t_trade_id t = tid then g t else t)
           (map (\<lambda>t. if t_trade_id t = tid then f t else t) ts)
         = map (\<lambda>t. if t_trade_id t = tid then g (f t) else t) ts"
  by (induction ts) (auto simp: assms)

lemma calculate_exit_slippage_eq:
  "calculate_exit_slippage is_stop = (if is_stop then 5 / 10 else 1 / 10)"
  by (simp add: calculate_exit_slippage_def dict_get_def SLIPPAGE_def)

lemma calculate_commission_eq:
  "calculate_commission cfg lot = 2 * commission_per_lot cfg * lot"
  by (simp add: calculate_commission_def Let_def)




lemma close_trade_found:
  assumes "find (\<lambda>t. t_trade_id t = tid) (trades db) = Some tr"
  shows "close_trade cfg now db tid e oc s =
           (update_account_balance cfg now
              (db\<lparr>trades := map (\<lambda>t. if t_trade_id t = tid
                                      then stamp (exit_of cfg tr tid e oc s) now t else t)
                               (trades db)\<rparr>)
              (net_of cfg tr e s) oc,
            Some (exit_of cfg tr tid e oc s))"
  using assms by (simp add: close_trade_def Let_def net_of_def exit_of_def stamp_def cong: if_cong)

lemma close_trade_missing:
  "find (\<lambda>t. t_trade_id t = tid) (trades db) = None \<Longrightarrow>
     close_trade cfg now db tid e oc s = (db, None)"
  by (simp add: close_trade_def)

lemma trades_update_account[simp]:
  "trades (update_account_balance cfg now db pnl oc) = trades db"
  by (simp add: update_account_balance_def Let_def)

lemma stamp_id[simp]: "t_trade_id (stamp x now t) = t_trade_id t"
  by (simp add: stamp_def)

lemma stamp_fields[simp]:
  "t_pair (stamp x now t) = t_pair t" "t_prediction (stamp x now t) = t_prediction t"
  "t_entry_price (stamp x now t) = t_entry_price t" "t_lot_size (stamp x now t) = t_lot_size t"
  by (simp_all add: stamp_def)

lemma stamp_stamp: "stamp x now' (stamp x now t) = stamp x now' t"
  by (simp add: stamp_def)

lemma net_of_stamp[simp]: "net_of cfg (stamp x now t) e s = net_of cfg t e s"
  by (simp add: net_of_def)

lemma exit_of_stamp[simp]: "exit_of cfg (stamp x now t) tid e oc s = exit_of cfg t tid e oc s"
  by (simp add: exit_of_def)


lemma drawdown_of_nonneg: "nb \<le> peak \<Longrightarrow> 0 \<le> drawdown_of peak nb"
  by (simp add: drawdown_of_def)

lemma update_account_Some_eq:
  assumes "account db = Some a"
  shows "account (update_account_balance cfg now db pnl oc) =
           Some (a\<lparr>balance := balance a + pnl,
                   total_trades := total_trades a + 1,
                   winning_trades := winning_trades a + (if oc = ''WIN'' then 1 else 0),
                   losing_trades := losing_trades a + (if oc = ''LOSS'' then 1 else 0),
                   peak_balance := max (peak_balance a) (balance a + pnl),
                   max_drawdown_pct :=
                     max (max_drawdown_pct a)
                       (drawdown_of (max (peak_balance a) (balance a + pnl)) (balance a + pnl)),
                   last_updated := now\<rparr>)"
  using assms by (simp add: update_account_balance_def Let_def drawdown_of_def)

lemma update_account_None_eq:
  assumes "account db = None"
  shows "account (update_account_balance cfg now db pnl oc) =
           account (update_account_balance cfg now (db\<lparr>account := Some (initial_account cfg now)\<rparr>) pnl oc)"
  using assms by (simp add: update_account_balance_def Let_def)

lemma update_account_Some:
  assumes "account db = Some a"
  shows "\<exists>a'. account (update_account_balance cfg now db pnl oc) = Some a' \<and>
           balance a' = balance a + pnl \<and>
           total_trades a' = total_trades a + 1 \<and>
           winning_trades a' = winning_trades a + (if oc = ''WIN'' then 1 else 0) \<and>
           losing_trades a' = losing_trades a + (if oc = ''LOSS'' then 1 else 0) \<and>
           peak_balance a' = max (peak_balance a) (balance a + pnl) \<and>
           max_drawdown_pct a' \<ge> max_drawdown_pct a \<and>
           max_drawdown_pct a' \<ge> 0 \<and>
           initial_balance a' = initial_balance a"
proof -
  have "0 \<le> drawdown_of (max (peak_balance a) (balance a + pnl)) (balance a + pnl)"
    by (rule drawdown_of_nonneg) simp
  then show ?thesis
    unfolding update_account_Some_eq [OF assms] by (simp add: max_def)
qed

lemma initial_account_inv: "account_inv (initial_account cfg now)"
  by (simp add: account_inv_def initial_account_def)

lemma update_account_inv:
  assumes "account db = Some a" and "account_inv a"
  shows "\<exists>a'. account (update_account_balance cfg now db pnl oc) = Some a' \<and> account_inv a' \<and>
           max_drawdown_pct a \<le> max_drawdown_pct a'"
proof -
  obtain a' where a': "account (update_account_balance cfg now db pnl oc) = Some a'"
      "balance a' = balance a + pnl" "total_trades a' = total_trades a + 1"
      "winning_trades a' = winning_trades a + (if oc = ''WIN'' then 1 else 0)"
      "losing_trades a' = losing_trades a + (if oc = ''LOSS'' then 1 else 0)"
      "peak_balance a' = max (peak_balance a) (balance a + pnl)"
      "max_drawdown_pct a' \<ge> max_drawdown_pct a" "max_drawdown_pct a' \<ge> 0"
    using update_account_Some [OF assms(1)] by blast
  have "account_inv a'"
    using assms(2) a'(2-8) by (auto simp: account_inv_def)
  with a'(1,7) show ?thesis by blast
qed



lemma update_account_any:
  assumes "db_account_inv db"
  shows "\<exists>a'. account (update_account_balance cfg now db pnl oc) = Some a' \<and> account_inv a' \<and>
           (\<forall>a. account db = Some a \<longrightarrow> max_drawdown_pct a \<le> max_drawdown_pct a')"
proof (cases "account db")
  case None
  let ?db0 = "db\<lparr>account := Some (initial_account cfg now)\<rparr>"
  have "account ?db0 = Some (initial_account cfg now)" by simp
  from update_account_inv [OF this initial_account_inv, of cfg now pnl oc]
  show ?thesis using None by (auto simp add: update_account_None_eq [OF None])
next
  case (Some a)
  then have "account_inv a" using assms by (simp add: db_account_inv_def)
  from update_account_inv [OF Some this] show ?thesis using Some by auto
qed

lemma close_call_cases:
  "close_call cfg db c = db \<or>
   (\<exists>db' pnl. account db' = account db \<and>
      close_call cfg db c = update_account_balance cfg (cc_now c) db' pnl (cc_outcome c))"
proof (cases "find (\<lambda>t. t_trade_id t = cc_trade_id c) (trades db)")
  case None
  then show ?thesis by (simp add: close_call_def close_trade_missing)
next
  case (Some tr)
  show ?thesis
    unfolding close_call_def close_trade_found [OF Some]
    by (rule disjI2, rule exI, rule exI, rule conjI [rotated], simp, simp)
qed

lemma close_call_inv:
  assumes "db_account_inv db"
  shows "db_account_inv (close_call cfg db c) \<and>
         (\<forall>a. account db = Some a \<longrightarrow>
            (\<exists>a'. account (close_call cfg db c) = Some a' \<and>
                  max_drawdown_pct a \<le> max_drawdown_pct a'))"
proof -
  from close_call_cases [of cfg db c] show ?thesis
  proof
    assume "close_call cfg db c = db"
    then show ?thesis using assms by simp
  next
    assume "\<exists>db' pnl. account db' = account db \<and>
      close_call cfg db c = update_account_balance cfg (cc_now c) db' pnl (cc_outcome c)"
    then obtain db' pnl where d: "account db' = account db"
      and e: "close_call cfg db c = update_account_balance cfg (cc_now c) db' pnl (cc_outcome c)"
      by blast
    have "db_account_inv db'" using assms d by (simp add: db_account_inv_def)
    from update_account_any [OF this, of cfg "cc_now c" pnl "cc_outcome c"]
    show ?thesis unfolding e using d by (auto simp: db_account_inv_def)
  qed
qed

lemma close_calls_inv:
  assumes "db_account_inv db"
  shows "db_account_inv (close_calls cfg db cs) \<and>
         (\<forall>a. account db = Some a \<longrightarrow>
            (\<exists>a'. account (close_calls cfg db cs) = Some a' \<and>
                  max_drawdown_pct a \<le> max_drawdown_pct a'))"
  using assms
proof (induction cs arbitrary: db)
  case Nil
  then show ?case by simp
next
  case (Cons c cs)
  have step: "db_account_inv (close_call cfg db c)"
    and mono1: "\<And>a. account db = Some a \<Longrightarrow>
            \<exists>a'. account (close_call cfg db c) = Some a' \<and> max_drawdown_pct a \<le> max_drawdown_pct a'"
    using close_call_inv [OF Cons.prems, of cfg c] by blast+
  have ih: "db_account_inv (close_calls cfg (close_call cfg db c) cs)"
    and mono2: "\<And>a. account (close_call cfg db c) = Some a \<Longrightarrow>
            \<exists>a'. account (close_calls cfg (close_call cfg db c) cs) = Some a' \<and>
                 max_drawdown_pct a \<le> max_drawdown_pct a'"
    using Cons.IH [OF step] by blast+
  show ?case
  proof (intro conjI allI impI)
    show "db_account_inv (close_calls cfg db (c # cs))" using ih by simp
  next
    fix a assume "account db = Some a"
    from mono1 [OF this] obtain a1 where a1: "account (close_call cfg db c) = Some a1"
      "max_drawdown_pct a \<le> max_drawdown_pct a1" by blast
    from mono2 [OF a1(1)] obtain a2 where
      "account (close_calls cfg (close_call cfg db c) cs) = Some a2"
      "max_drawdown_pct a1 \<le> max_drawdown_pct a2" by blast
    with a1(2) show "\<exists>a'. account (close_calls cfg db (c # cs)) = Some a' \<and>
        max_drawdown_pct a \<le> max_drawdown_pct a'" by auto
  qed
qed

lemma close_calls_append:
  "close_calls cfg db (xs @ ys) = close_calls cfg (close_calls cfg db xs) ys"
  by (induction xs arbitrary: db) simp_all

lemma close_call_other_outcome:
  assumes "cc_outcome c \<noteq> ''WIN''" "cc_outcome c \<noteq> ''LOSS''"
    and "account db = Some a" and "account (close_call cfg db c) = Some a'"
  shows "winning_trades a' = winning_trades a \<and> losing_trades a' = losing_trades a"
proof -
  from close_call_cases [of cfg db c] show ?thesis
  proof
    assume "close_call cfg db c = db"
    then show ?thesis using assms by simp
  next
    assume "\<exists>db' pnl. account db' = account db \<and>
      close_call cfg db c = update_account_balance cfg (cc_now c) db' pnl (cc_outcome c)"
    then obtain db' pnl where d: "account db' = account db"
      and e: "close_call cfg db c = update_account_balance cfg (cc_now c) db' pnl (cc_outcome c)"
      by blast
    have "account db' = Some a" using d assms(3) by simp
    from update_account_Some_eq [OF this, of cfg "cc_now c" pnl "cc_outcome c"]
    show ?thesis using assms(1,2,4) unfolding e by auto
  qed
qed

text \<open>
  Claim C4. Starting from an account row that satisfies the invariants (or from no row,
  in which case the first close creates it), every sequence of \<open>close_trade\<close> calls ends
  in an account with \<open>winning_trades + losing_trades \<le> total_trades\<close>,
  \<open>peak_balance \<ge> balance\<close> and \<open>max_drawdown_pct \<ge> 0\<close>; between any two points of the
  sequence \<open>max_drawdown_pct\<close> does not decrease; and a close with outcome TIMEOUT or
  BREAKEVEN changes neither the win nor the loss counter.
\<close>

theorem close_preserves_account_invariants:
  assumes "db_account_inv db"
  shows "db_account_inv (close_calls cfg db cs) \<and>
         (\<forall>cs1 cs2 a1. cs = cs1 @ cs2 \<and> account (close_calls cfg db cs1) = Some a1 \<longrightarrow>
            (\<exists>a2. account (close_calls cfg db cs) = Some a2 \<and>
                  max_drawdown_pct a1 \<le> max_drawdown_pct a2)) \<and>
         (\<forall>c a a'. cc_outcome c \<in> {''TIMEOUT'', ''BREAKEVEN''} \<and> account db = Some a \<and>
              account (close_call cfg db c) = Some a' \<longrightarrow>
            winning_trades a' = winning_trades a \<and> losing_trades a' = losing_trades a)"
proof (intro conjI allI impI)
  show "db_account_inv (close_calls cfg db cs)"
    using close_calls_inv [OF assms] by blast
next
  fix cs1 cs2 a1
  assume h: "cs = cs1 @ cs2 \<and> account (close_calls cfg db cs1) = Some a1"
  have "db_account_inv (close_calls cfg db cs1)"
    using close_calls_inv [OF assms] by blast
  from close_calls_inv [OF this, of cfg cs2] h
  show "\<exists>a2. account (close_calls cfg db cs) = Some a2 \<and>
          max_drawdown_pct a1 \<le> max_drawdown_pct a2"
    by (simp add: close_calls_append)
next
  fix c a a'
  assume h: "cc_outcome c \<in> {''TIMEOUT'', ''BREAKEVEN''} \<and> account db = Some a \<and>
              account (close_call cfg db c) = Some a'"
  then have "cc_outcome c \<noteq> ''WIN''" "cc_outcome c \<noteq> ''LOSS''" by auto
  from close_call_other_outcome [OF this, of db a cfg a'] h
  show "winning_trades a' = winning_trades a" "losing_trades a' = losing_trades a" by simp_all
qed

theorem close_preserves_account_invariants_witness:
  "db_account_inv S6_db1 \<and> db_account_inv (close_calls default_settings S6_db1 [S6_call]) \<and>
   (\<exists>a1 a2. account S6_db1 = Some a1 \<and>
        account (close_calls default_settings S6_db1 [S6_call]) = Some a2 \<and>
        max_drawdown_pct a1 \<le> max_drawdown_pct a2)"
proof -
  have h: "db_account_inv S6_db1" by code_simp
  have "account S6_db1 \<noteq> None" by code_simp
  then obtain a1 where a1: "account S6_db1 = Some a1" by blast
  from close_preserves_account_invariants [OF h, of default_settings "[S6_call]"] a1 h
  show ?thesis by (metis append_Nil close_calls.simps(1))
qed

lemma raw_pips_spec:
  "raw_pips pred pair entry e - calculate_exit_slippage s
     = spec_pnl_pips (pred = ''BULLISH'') (get_pip_value pair) entry e s"
  by (simp add: raw_pips_def spec_pnl_pips_def calculate_exit_slippage_eq)

lemma net_of_spec:
  "net_of cfg tr e s =
     spec_net_cash
       (spec_pnl_pips (t_prediction tr = ''BULLISH'') (get_pip_value (t_pair tr))
          (t_entry_price tr) e s)
       (get_pip_value_in_usd (t_pair tr)) (t_lot_size tr) (commission_per_lot cfg)"
  by (simp add: net_of_def spec_net_cash_def raw_pips_spec calculate_commission_eq)

lemma update_account_balance_delta:
  "\<exists>a'. account (update_account_balance cfg now db pnl oc) = Some a' \<and>
         balance a' = (case account db of None \<Rightarrow> starting_balance cfg | Some a \<Rightarrow> balance a) + pnl"
  by (cases "account db") (simp_all add: update_account_balance_def Let_def initial_account_def)

lemma close_trade_pnl_general:
  assumes "find (\<lambda>t. t_trade_id t = tid) (trades db) = Some tr"
  shows "\<exists>db' x a'. close_trade cfg now db tid exit_price outcome is_stop = (db', Some x) \<and>
     tx_slippage_pips x = (if is_stop then 5 / 10 else 1 / 10) \<and>
     tx_pnl_pips x =
       py_round (spec_pnl_pips (t_prediction tr = ''BULLISH'') (get_pip_value (t_pair tr))
                   (t_entry_price tr) exit_price is_stop) 1 \<and>
     tx_pnl_dollars x =
       py_round (spec_net_cash
                   (spec_pnl_pips (t_prediction tr = ''BULLISH'') (get_pip_value (t_pair tr))
                      (t_entry_price tr) exit_price is_stop)
                   (get_pip_value_in_usd (t_pair tr)) (t_lot_size tr) (commission_per_lot cfg)) 2 \<and>
     tx_commission x = py_round (2 * commission_per_lot cfg * t_lot_size tr) 2 \<and>
     account db' = Some a' \<and>
     balance a' =
       (case account db of None \<Rightarrow> starting_balance cfg | Some a \<Rightarrow> balance a)
         + spec_net_cash
             (spec_pnl_pips (t_prediction tr = ''BULLISH'') (get_pip_value (t_pair tr))
                (t_entry_price tr) exit_price is_stop)
             (get_pip_value_in_usd (t_pair tr)) (t_lot_size tr) (commission_per_lot cfg)"
proof -
  let ?db1 = "db\<lparr>trades := map (\<lambda>t. if t_trade_id t = tid
                                      then stamp (exit_of cfg tr tid exit_price outcome is_stop) now t else t)
                               (trades db)\<rparr>"
  let ?x = "exit_of cfg tr tid exit_price outcome is_stop"
  have c: "close_trade cfg now db tid exit_price outcome is_stop =
             (update_account_balance cfg now ?db1 (net_of cfg tr exit_price is_stop) outcome, Some ?x)"
    by (rule close_trade_found [OF assms])
  obtain a' where a': "account (update_account_balance cfg now ?db1 (net_of cfg tr exit_price is_stop) outcome) = Some a'"
    "balance a' = (case account ?db1 of None \<Rightarrow> starting_balance cfg | Some a \<Rightarrow> balance a)
                    + net_of cfg tr exit_price is_stop"
    using update_account_balance_delta by blast
  have x1: "tx_slippage_pips ?x = (if is_stop then 5 / 10 else 1 / 10)"
    by (simp add: exit_of_def calculate_exit_slippage_eq)
  have x2: "tx_pnl_pips ?x =
       py_round (spec_pnl_pips (t_prediction tr = ''BULLISH'') (get_pip_value (t_pair tr))
                   (t_entry_price tr) exit_price is_stop) 1"
    by (simp add: exit_of_def raw_pips_spec)
  have x3: "tx_pnl_dollars ?x = py_round (net_of cfg tr exit_price is_stop) 2"
    by (simp add: exit_of_def)
  have x4: "tx_commission ?x = py_round (2 * commission_per_lot cfg * t_lot_size tr) 2"
    by (simp add: exit_of_def calculate_commission_eq)
  have acc: "account ?db1 = account db" by simp
  show ?thesis
    using c a' x1 x2 x3 x4 unfolding acc net_of_spec by blast
qed

lemma S4_pnl_pips_value:
  "py_round (spec_pnl_pips (t_prediction S4_trade = ''BULLISH'') (get_pip_value (t_pair S4_trade))
               (t_entry_price S4_trade) (14985 / 100) False) 1 = 149 / 10"
  by code_simp

lemma S4_pnl_dollars_value:
  "py_round (spec_net_cash
               (spec_pnl_pips (t_prediction S4_trade = ''BULLISH'')
                  (get_pip_value (t_pair S4_trade)) (t_entry_price S4_trade) (14985 / 100) False)
               (get_pip_value_in_usd (t_pair S4_trade)) (t_lot_size S4_trade)
               (commission_per_lot default_settings)) 2 = 879 / 100"
  by code_simp

lemma S4_find: "find (\<lambda>t. t_trade_id t = ''S4'') (trades S4_db) = Some S4_trade"
  by code_simp

text \<open>
  Claim C6. For a position \<open>tr\<close> found under the id, \<open>close_trade\<close> returns a
  \<open>TradeExit\<close> whose slippage is 0.5 pips for a stop exit and 0.1 otherwise, and whose
  pips and cash are the formulas of the specification (movement by direction over the
  tick size minus slippage; pips times pip cash per lot times lots minus twice the
  commission per lot times lots), rounded to one and two decimals for the record, while
  the account balance moves by the unrounded net cash. A position whose prediction
  is not BULLISH is treated as Short. In scenario S4 the pips are 14.9, whatever the
  settings and the clock.
\<close>

theorem close_trade_computes_pnl:
  "(\<forall>tr. find (\<lambda>t. t_trade_id t = tid) (trades db) = Some tr \<longrightarrow>
      (\<exists>db' x a'. close_trade cfg now db tid exit_price outcome is_stop = (db', Some x) \<and>
         tx_slippage_pips x = (if is_stop then 5 / 10 else 1 / 10) \<and>
         tx_pnl_pips x =
           py_round (spec_pnl_pips (t_prediction tr = ''BULLISH'') (get_pip_value (t_pair tr))
                       (t_entry_price tr) exit_price is_stop) 1 \<and>
         tx_pnl_dollars x =
           py_round (spec_net_cash
                       (spec_pnl_pips (t_prediction tr = ''BULLISH'') (get_pip_value (t_pair tr))
                          (t_entry_price tr) exit_price is_stop)
                       (get_pip_value_in_usd (t_pair tr)) (t_lot_size tr)
                       (commission_per_lot cfg)) 2 \<and>
         tx_commission x = py_round (2 * commission_per_lot cfg * t_lot_size tr) 2 \<and>
         account db' = Some a' \<and>
         balance a' =
           (case account db of None \<Rightarrow> starting_balance cfg | Some a \<Rightarrow> balance a)
             + spec_net_cash
                 (spec_pnl_pips (t_prediction tr = ''BULLISH'') (get_pip_value (t_pair tr))
                    (t_entry_price tr) exit_price is_stop)
                 (get_pip_value_in_usd (t_pair tr)) (t_lot_size tr) (commission_per_lot cfg))) \<and>
   map_option tx_pnl_pips
     (snd (close_trade cfg now S4_db ''S4'' (14985 / 100) ''TIMEOUT'' False)) = Some (149 / 10)"
proof (intro conjI allI impI)
  fix tr assume "find (\<lambda>t. t_trade_id t = tid) (trades db) = Some tr"
  then show "\<exists>db' x a'. close_trade cfg now db tid exit_price outcome is_stop = (db', Some x) \<and>
         tx_slippage_pips x = (if is_stop then 5 / 10 else 1 / 10) \<and>
         tx_pnl_pips x =
           py_round (spec_pnl_pips (t_prediction tr = ''BULLISH'') (get_pip_value (t_pair tr))
                       (t_entry_price tr) exit_price is_stop) 1 \<and>
         tx_pnl_dollars x =
           py_round (spec_net_cash
                       (spec_pnl_pips (t_prediction tr = ''BULLISH'') (get_pip_value (t_pair tr))
                          (t_entry_price tr) exit_price is_stop)
                       (get_pip_value_in_usd (t_pair tr)) (t_lot_size tr)
                       (commission_per_lot cfg)) 2 \<and>
         tx_commission x = py_round (2 * commission_per_lot cfg * t_lot_size tr) 2 \<and>
         account db' = Some a' \<and>
         balance a' =
           (case account db of None \<Rightarrow> starting_balance cfg | Some a \<Rightarrow> balance a)
             + spec_net_cash
                 (spec_pnl_pips (t_prediction tr = ''BULLISH'') (get_pip_value (t_pair tr))
                    (t_entry_price tr) exit_price is_stop)
                 (get_pip_value_in_usd (t_pair tr)) (t_lot_size tr) (commission_per_lot cfg)"
    by (rule close_trade_pnl_general)
next
  from close_trade_pnl_general [OF S4_find, of cfg now "14985 / 100" "''TIMEOUT''" False]
  obtain db' x where c: "close_trade cfg now S4_db ''S4'' (14985 / 100) ''TIMEOUT'' False = (db', Some x)"
    and p: "tx_pnl_pips x =
           py_round (spec_pnl_pips (t_prediction S4_trade = ''BULLISH'')
                       (get_pip_value (t_pair S4_trade)) (t_entry_price S4_trade)
                       (14985 / 100) False) 1"
    by blast
  have "tx_pnl_pips x = 149 / 10" using p unfolding S4_pnl_pips_value .
  then show "map_option tx_pnl_pips
     (snd (close_trade cfg now S4_db ''S4'' (14985 / 100) ''TIMEOUT'' False)) = Some (149 / 10)"
    unfolding c by simp
qed

text \<open>The theorem at scenario S4, with the default settings: 14.9 pips, 8.79 dollars net.\<close>

theorem close_trade_computes_pnl_witness:
  "find (\<lambda>t. t_trade_id t = ''S4'') (trades S4_db) = Some S4_trade \<and>
   (\<exists>db' x. close_trade default_settings (mk_datetime 2024 3 11 12 0) S4_db ''S4'' (14985 / 100)
               ''TIMEOUT'' False = (db', Some x) \<and>
       tx_slippage_pips x = 1 / 10 \<and> tx_pnl_pips x = 149 / 10 \<and> tx_pnl_dollars x = 879 / 100)"
proof -
  from close_trade_computes_pnl [of "''S4''" S4_db default_settings "mk_datetime 2024 3 11 12 0"
         "14985 / 100" "''TIMEOUT''" False] S4_find
  obtain db' x where
    c: "close_trade default_settings (mk_datetime 2024 3 11 12 0) S4_db ''S4'' (14985 / 100)
       ''TIMEOUT'' False = (db', Some x)"
    and sl: "tx_slippage_pips x = (if False then 5 / 10 else 1 / 10)"
    and pp: "tx_pnl_pips x =
       py_round (spec_pnl_pips (t_prediction S4_trade = ''BULLISH'')
                   (get_pip_value (t_pair S4_trade)) (t_entry_price S4_trade)
                   (14985 / 100) False) 1"
    and pd: "tx_pnl_dollars x =
       py_round (spec_net_cash
                   (spec_pnl_pips (t_prediction S4_trade = ''BULLISH'')
                      (get_pip_value (t_pair S4_trade)) (t_entry_price S4_trade) (14985 / 100) False)
                   (get_pip_value_in_usd (t_pair S4_trade)) (t_lot_size S4_trade)
                   (commission_per_lot default_settings)) 2"
    by blast
  have v1: "tx_pnl_pips x = 149 / 10" using pp unfolding S4_pnl_pips_value .
  have v2: "tx_pnl_dollars x = 879 / 100" using pd unfolding S4_pnl_dollars_value .
  have v3: "tx_slippage_pips x = 1 / 10" using sl by simp
  from c v1 v2 v3 S4_find show ?thesis by blast
qed

lemma stamp_restamp: "stamp x now' t = (stamp x now t)\<lparr>t_verified_at := Some now'\<rparr>"
  by (simp add: stamp_def)

lemma close_trade_again:
  assumes "find (\<lambda>t. t_trade_id t = tid) (trades db) = Some tr"
  shows "\<exists>db1 db2 x a1 a2.
     close_trade cfg now db tid e oc s = (db1, Some x) \<and>
     close_trade cfg now' db1 tid e oc s = (db2, Some x) \<and>
     trades db2 = map (\<lambda>t. if t_trade_id t = tid then t\<lparr>t_verified_at := Some now'\<rparr> else t) (trades db1) \<and>
     account db1 = Some a1 \<and> account db2 = Some a2 \<and>
     total_trades a2 = total_trades a1 + 1 \<and>
     winning_trades a2 = winning_trades a1 + (if oc = ''WIN'' then 1 else 0) \<and>
     losing_trades a2 = losing_trades a1 + (if oc = ''LOSS'' then 1 else 0) \<and>
     balance a2 - balance a1 =
       balance a1 - (case account db of None \<Rightarrow> starting_balance cfg | Some a \<Rightarrow> balance a)"
proof -
  let ?x = "exit_of cfg tr tid e oc s"
  let ?net = "net_of cfg tr e s"
  let ?ts1 = "map (\<lambda>t. if t_trade_id t = tid then stamp ?x now t else t) (trades db)"
  let ?db1 = "update_account_balance cfg now (db\<lparr>trades := ?ts1\<rparr>) ?net oc"
  have c1: "close_trade cfg now db tid e oc s = (?db1, Some ?x)"
    by (rule close_trade_found [OF assms])
  have f1: "find (\<lambda>t. t_trade_id t = tid) (trades ?db1) = Some (stamp ?x now tr)"
    using assms by (simp add: find_map_update)
  let ?ts2 = "map (\<lambda>t. if t_trade_id t = tid then stamp ?x now' t else t) (trades ?db1)"
  let ?db2 = "update_account_balance cfg now' (?db1\<lparr>trades := ?ts2\<rparr>) ?net oc"
  have c2: "close_trade cfg now' ?db1 tid e oc s = (?db2, Some ?x)"
    using close_trade_found [OF f1, of cfg now' e oc s]
    unfolding exit_of_stamp net_of_stamp .
  have t2: "trades ?db2 =
      map (\<lambda>t. if t_trade_id t = tid then t\<lparr>t_verified_at := Some now'\<rparr> else t) (trades ?db1)"
    by (simp add: map_update_twice stamp_stamp stamp_restamp [of ?x now' _ now, symmetric]
             cong: if_cong)
  obtain a1 where a1: "account ?db1 = Some a1"
    "balance a1 = (case account db of None \<Rightarrow> starting_balance cfg | Some a \<Rightarrow> balance a) + ?net"
    using update_account_balance_delta [of cfg now "db\<lparr>trades := ?ts1\<rparr>" ?net oc] by auto
  have "account (?db1\<lparr>trades := ?ts2\<rparr>) = Some a1" using a1(1) by simp
  from update_account_Some [OF this, of cfg now' ?net oc]
  obtain a2 where a2: "account ?db2 = Some a2" "balance a2 = balance a1 + ?net"
    "total_trades a2 = total_trades a1 + 1"
    "winning_trades a2 = winning_trades a1 + (if oc = ''WIN'' then 1 else 0)"
    "losing_trades a2 = losing_trades a1 + (if oc = ''LOSS'' then 1 else 0)"
    by blast
  have "balance a2 - balance a1 =
       balance a1 - (case account db of None \<Rightarrow> starting_balance cfg | Some a \<Rightarrow> balance a)"
    using a1(2) a2(2) by simp
  with c1 c2 t2 a1(1) a2 show ?thesis by blast
qed

lemma S6_find: "find (\<lambda>t. t_trade_id t = ''S6'') (trades S6_db) = Some S6_trade"
  by code_simp

text \<open>
  Claim C1, as stated, fails: \<open>close_trade\<close> has no test for an outcome that is already
  set. In scenario S6 the position is closed at 1.1050 as a win; after the first call
  its outcome is WIN and the account shows one trade and a balance of 10492, and after
  the second call with the same arguments the account shows two trades and a balance
  of 10984.
\<close>

theorem close_twice_counterexample:
  "map t_outcome (trades S6_db1) = [Some ''WIN''] \<and>
   map_option total_trades (account S6_db1) = Some 1 \<and>
   map_option total_trades (account S6_db2) = Some 2 \<and>
   map_option balance (account S6_db1) = Some 10492 \<and>
   map_option balance (account S6_db2) = Some 10984 \<and>
   account S6_db2 \<noteq> account S6_db1"
  by code_simp

text \<open>
  Claim C1, amended. A call of \<open>close_trade\<close> with an unknown id returns \<open>None\<close> and
  changes nothing. For a position that exists, a second call with the same arguments
  is processed like the first: it returns the same \<open>TradeExit\<close>, rewrites the position's
  outcome columns with the same values (only \<open>verified_at\<close> takes the new clock reading),
  and updates the account once more, so that \<open>total_trades\<close> grows by one again, the win or
  loss counter of the outcome grows again, and the balance moves again by the same net
  amount.
\<close>

theorem close_trade_repeated:
  "(find (\<lambda>t. t_trade_id t = tid) (trades db) = None \<longrightarrow>
      close_trade cfg now db tid e oc s = (db, None)) \<and>
   (\<forall>tr. find (\<lambda>t. t_trade_id t = tid) (trades db) = Some tr \<longrightarrow>
      (\<exists>db1 db2 x a1 a2.
         close_trade cfg now db tid e oc s = (db1, Some x) \<and>
         close_trade cfg now' db1 tid e oc s = (db2, Some x) \<and>
         trades db2 =
           map (\<lambda>t. if t_trade_id t = tid then t\<lparr>t_verified_at := Some now'\<rparr> else t) (trades db1) \<and>
         account db1 = Some a1 \<and> account db2 = Some a2 \<and>
         total_trades a2 = total_trades a1 + 1 \<and>
         winning_trades a2 = winning_trades a1 + (if oc = ''WIN'' then 1 else 0) \<and>
         losing_trades a2 = losing_trades a1 + (if oc = ''LOSS'' then 1 else 0) \<and>
         balance a2 - balance a1 =
           balance a1 - (case account db of None \<Rightarrow> starting_balance cfg | Some a \<Rightarrow> balance a)))"
  using close_trade_missing [of tid db cfg now e oc s]
    close_trade_again [of tid db _ cfg now e oc s now']
  by blast

theorem close_trade_repeated_witness:
  "find (\<lambda>t. t_trade_id t = ''S6'') (trades S6_db) = Some S6_trade \<and>
   (\<exists>a1 a2. account S6_db1 = Some a1 \<and> account S6_db2 = Some a2 \<and>
       total_trades a2 = total_trades a1 + 1 \<and> winning_trades a2 = winning_trades a1 + 1 \<and>
       balance a2 - balance a1 = balance a1 - 10000)"
proof -
  let ?now = "mk_datetime 2024 3 11 9 0"
  from close_trade_repeated [of "''S6''" S6_db default_settings ?now "11050 / 10000" "''WIN''"
         False ?now] S6_find
  obtain db1 db2 x a1 a2 where
    c1: "close_trade default_settings ?now S6_db ''S6'' (11050 / 10000) ''WIN'' False = (db1, Some x)"
    and c2: "close_trade default_settings ?now db1 ''S6'' (11050 / 10000) ''WIN'' False = (db2, Some x)"
    and a: "account db1 = Some a1" "account db2 = Some a2"
      "total_trades a2 = total_trades a1 + 1"
      "winning_trades a2 = winning_trades a1 + (if ''WIN'' = ''WIN'' then 1 else 0)"
      "balance a2 - balance a1 =
         balance a1 - (case account S6_db of None \<Rightarrow> starting_balance default_settings
                       | Some a \<Rightarrow> balance a)"
    by blast
  have d1: "S6_db1 = db1" unfolding S6_db1_def c1 by simp
  have d2: "S6_db2 = db2" unfolding S6_db2_def d1 c2 by simp
  have b: "(case account S6_db of None \<Rightarrow> starting_balance default_settings
            | Some a \<Rightarrow> balance a) = 10000"
    by code_simp
  show ?thesis using S6_find a unfolding d1 d2 b by simp
qed

lemma open_trade_succeeds_iff:
  "(\<exists>r. open_trade cfg now nid db rp pred conv sdt fa = Inr r) \<longleftrightarrow> trades_check pred conv"
  by (simp add: open_trade_def Let_def)

lemma open_trade_entry:
  assumes "open_trade cfg now nid db rp pred conv sdt fa = Inr (db', te)"
  shows "trades_check pred conv"
    and "\<exists>row. trades db' = trades db @ [row] \<and> t_trade_id row = nid \<and>
           t_prediction row = pred \<and> t_entry_price row = te_entry_price te"
    and "te_entry_price te =
           (if pred = ''BULLISH''
            then rp_entry_price rp + rp_spread_pips rp * get_pip_value (rp_pair rp)
            else rp_entry_price rp - rp_spread_pips rp * get_pip_value (rp_pair rp))"
  using assms by (auto simp: open_trade_def Let_def split: if_splits)

text \<open>
  Claim C2, as stated, fails: \<open>open_trade\<close> moves the entry by the whole spread. For the
  risk parameters the engine derives for a Bullish EURUSD entry at 1.1000 (spread 0.1
  pips), the trade is opened and its persisted entry is 1.10001, not 1.1000 plus half
  of 0.1 pips.
\<close>

theorem open_trade_half_spread_counterexample:
  "calculate_risk_parameters default_settings demo_db ''EURUSD'' ''London_Open''
       ''BULLISH'' (11000 / 10000) 10000 = Some demo_rp \<and>
   map_option t_entry_price
     (case open_trade default_settings (mk_datetime 2024 3 11 8 0) ''N1'' demo_db
             demo_rp ''BULLISH'' 9 (mk_datetime 2024 3 11 8 0) None of
        Inl err \<Rightarrow> None
      | Inr r \<Rightarrow> find (\<lambda>t. t_trade_id t = ''N1'') (trades (fst r)))
     = Some (110001 / 100000) \<and>
   rp_entry_price demo_rp + (rp_spread_pips demo_rp / 2) * get_pip_value (rp_pair demo_rp)
     = 1100005 / 1000000 \<and>
   (110001 / 100000 :: real) \<noteq> 1100005 / 1000000"
  by code_simp

text \<open>
  Claim C2, amended. For every trade opened via \<open>open_trade\<close> (the INSERT is accepted,
  so the prediction is BULLISH or BEARISH), one row is appended under the new id, and
  the entry price of that row and of the returned \<open>TradeEntry\<close> is the risk-engine entry
  price adjusted by the full spread in price units (\<open>spread_pips\<close> times the tick size):
  a BULLISH entry adds it and a BEARISH entry subtracts it.
\<close>

theorem open_trade_full_spread:
  assumes "open_trade cfg now nid db rp pred conv sdt fa = Inr (db', te)"
  shows "(\<exists>row. trades db' = trades db @ [row] \<and> t_trade_id row = nid \<and>
            t_prediction row = pred \<and> t_entry_price row = te_entry_price te) \<and>
         (pred = ''BULLISH'' \<or> pred = ''BEARISH'') \<and>
         (pred = ''BULLISH'' \<longrightarrow>
            te_entry_price te = rp_entry_price rp + rp_spread_pips rp * get_pip_value (rp_pair rp)) \<and>
         (pred = ''BEARISH'' \<longrightarrow>
            te_entry_price te = rp_entry_price rp - rp_spread_pips rp * get_pip_value (rp_pair rp))"
proof -
  have "pred = ''BULLISH'' \<or> pred = ''BEARISH''"
    using open_trade_entry(1) [OF assms] by (simp add: trades_check_def)
  moreover have "pred = ''BEARISH'' \<Longrightarrow> pred \<noteq> ''BULLISH''" by auto
  ultimately show ?thesis
    using open_trade_entry(2,3) [OF assms] by auto
qed

theorem open_trade_full_spread_witness:
  "\<exists>db' te. open_trade default_settings (mk_datetime 2024 3 11 8 0) ''N1'' demo_db demo_rp
               ''BULLISH'' 9 (mk_datetime 2024 3 11 8 0) None = Inr (db', te) \<and>
     te_entry_price te = 110001 / 100000"
proof -
  have v: "rp_entry_price demo_rp + rp_spread_pips demo_rp * get_pip_value (rp_pair demo_rp)
             = 110001 / 100000"
    by code_simp
  have "trades_check ''BULLISH'' 9" by (simp add: trades_check_def)
  then obtain r where "open_trade default_settings (mk_datetime 2024 3 11 8 0) ''N1'' demo_db
      demo_rp ''BULLISH'' 9 (mk_datetime 2024 3 11 8 0) None = Inr r"
    using open_trade_succeeds_iff by blast
  then obtain db' te where h: "open_trade default_settings (mk_datetime 2024 3 11 8 0) ''N1''
      demo_db demo_rp ''BULLISH'' 9 (mk_datetime 2024 3 11 8 0) None = Inr (db', te)"
    by (cases r) auto
  from open_trade_full_spread [OF h]
  have "te_entry_price te
          = rp_entry_price demo_rp + rp_spread_pips demo_rp * get_pip_value (rp_pair demo_rp)"
    by blast
  then have "te_entry_price te = 110001 / 100000" unfolding v .
  with h show ?thesis by blast
qed

section \<open>Properties: risk engine\<close>

lemma round_half_even_between:
  assumes "of_int m \<le> x" and "x \<le> of_int n"
  shows "m \<le> round_half_even x \<and> round_half_even x \<le> n"
proof -
  have lo: "m \<le> \<lfloor>x\<rfloor>" using assms(1) by (simp add: le_floor_iff)
  have hi: "\<lfloor>x\<rfloor> \<le> n" using assms(2) by (simp add: floor_le_iff)
  show ?thesis
  proof (cases "x - of_int \<lfloor>x\<rfloor> < 1 / 2")
    case True
    then show ?thesis using lo hi by (simp add: round_half_even_def Let_def)
  next
    case False
    then have "of_int \<lfloor>x\<rfloor> < x" by linarith
    then have "of_int \<lfloor>x\<rfloor> < (of_int n :: real)" using assms(2) by linarith
    then have "\<lfloor>x\<rfloor> < n" by simp
    then have "\<lfloor>x\<rfloor> + 1 \<le> n" by simp
    then show ?thesis using lo hi by (auto simp add: round_half_even_def Let_def)
  qed
qed

lemma py_round_2_between:
  assumes "a \<le> x" and "x \<le> b"
    and "of_int \<lfloor>a * 100\<rfloor> = a * 100" and "of_int \<lfloor>b * 100\<rfloor> = b * 100"
  shows "a \<le> py_round x 2 \<and> py_round x 2 \<le> b"
proof -
  have "of_int \<lfloor>a * 100\<rfloor> \<le> x * 100" using assms(1,3) by linarith
  moreover have "x * 100 \<le> of_int \<lfloor>b * 100\<rfloor>" using assms(2,4) by linarith
  ultimately have r: "\<lfloor>a * 100\<rfloor> \<le> round_half_even (x * 100)"
      "round_half_even (x * 100) \<le> \<lfloor>b * 100\<rfloor>"
    using round_half_even_between by blast+
  have "a * 100 \<le> of_int (round_half_even (x * 100))"
    using r(1) assms(3) by (metis of_int_le_iff)
  moreover have "of_int (round_half_even (x * 100)) \<le> b * 100"
    using r(2) assms(4) by (metis of_int_le_iff)
  ultimately show ?thesis by (simp add: py_round_def field_simps)
qed

lemma get_pip_value_pos: "0 < get_pip_value pair"
  by (simp add: get_pip_value_def Let_def)

lemma calculate_tp_sl_props:
  assumes "calculate_tp_sl cfg entry dir pair targets tpa sla = (tp, sl, tp_pips, sl_pips)"
  shows "5 \<le> tp_pips" and "5 \<le> sl_pips"
    and "dir = ''BULLISH'' \<Longrightarrow> entry < tp \<and> sl < entry"
    and "dir \<noteq> ''BULLISH'' \<Longrightarrow> tp < entry \<and> entry < sl"
proof -
  let ?pv = "get_pip_value pair"
  have pv: "0 < ?pv" by (rule get_pip_value_pos)
  have t: "5 \<le> tp_pips" and s: "5 \<le> sl_pips"
    using assms by (auto simp: calculate_tp_sl_def Let_def split: if_splits)
  show "5 \<le> tp_pips" "5 \<le> sl_pips" by (rule t, rule s)
  have tpos: "0 < tp_pips * ?pv" and spos: "0 < sl_pips * ?pv"
    using t s pv by simp_all
  {
    assume "dir = ''BULLISH''"
    then have "tp = entry + tp_pips * ?pv" "sl = entry - sl_pips * ?pv"
      using assms by (auto simp: calculate_tp_sl_def Let_def)
    then show "entry < tp \<and> sl < entry" using tpos spos by simp
  }
  {
    assume "dir \<noteq> ''BULLISH''"
    then have "tp = entry - tp_pips * ?pv" "sl = entry + sl_pips * ?pv"
      using assms by (auto simp: calculate_tp_sl_def Let_def)
    then show "tp < entry \<and> entry < sl" using tpos spos by simp
  }
qed

lemma calculate_position_size_bounds:
  assumes "lot_limits_ok cfg"
  shows "min_lot_size cfg \<le> fst (calculate_position_size cfg bal sl_pips pair rpa) \<and>
         fst (calculate_position_size cfg bal sl_pips pair rpa) \<le> max_lot_size cfg"
proof -
  have ok: "min_lot_size cfg \<le> max_lot_size cfg"
      "of_int \<lfloor>min_lot_size cfg * 100\<rfloor> = min_lot_size cfg * 100"
      "of_int \<lfloor>max_lot_size cfg * 100\<rfloor> = max_lot_size cfg * 100"
    using assms by (simp_all add: lot_limits_ok_def)
  obtain lot0 where l: "fst (calculate_position_size cfg bal sl_pips pair rpa)
      = py_round (min (max_lot_size cfg) (max (min_lot_size cfg) lot0)) 2"
    by (simp add: calculate_position_size_def Let_def)
  have "min_lot_size cfg \<le> min (max_lot_size cfg) (max (min_lot_size cfg) lot0)"
    "min (max_lot_size cfg) (max (min_lot_size cfg) lot0) \<le> max_lot_size cfg"
    using ok(1) by simp_all
  from py_round_2_between [OF this ok(2,3)] show ?thesis unfolding l .
qed

lemma calculate_risk_parameters_Some:
  assumes "calculate_risk_parameters cfg db pair session_name dir entry_price bal = Some rp"
  shows "\<exists>targets. get_percentiles db pair session_name = Some targets \<and>
           30 \<le> sample_count targets \<and>
           calculate_tp_sl cfg entry_price dir pair targets None None
             = (rp_take_profit rp, rp_stop_loss rp, rp_tp_pips rp, rp_sl_pips rp) \<and>
           rp_lot_size rp = fst (calculate_position_size cfg bal (rp_sl_pips rp) pair None) \<and>
           rp_entry_price rp = entry_price \<and> rp_direction rp = dir"
  using assms
  by (auto simp: calculate_risk_parameters_def Let_def split: option.splits if_splits prod.splits)

lemma calculate_risk_parameters_None:
  "calculate_risk_parameters cfg db pair session_name dir entry_price bal = None \<longleftrightarrow>
     (case get_percentiles db pair session_name of None \<Rightarrow> True
      | Some targets \<Rightarrow> sample_count targets < 30)"
  by (auto simp: calculate_risk_parameters_def Let_def split: option.splits prod.splits)

lemma get_percentiles_row:
  "get_percentiles db pair session_name =
     map_option (\<lambda>row. \<lparr>pt_pair = pr_pair row, pt_session_name = pr_session_name row,
                sample_count = pr_sample_count row, accuracy_pct = pr_accuracy_pct row,
                mfe_p25 = pr_mfe_p25 row, mfe_p50 = pr_mfe_p50 row, mfe_p75 = pr_mfe_p75 row,
                mae_p25 = pr_mae_p25 row, mae_p50 = pr_mae_p50 row, mae_p75 = pr_mae_p75 row\<rparr>)
       (find (\<lambda>r. pr_pair r = pair \<and> pr_session_name r = session_name) (percentile_targets db))"
  by (simp add: get_percentiles_def split: option.splits)

lemma execute_pair_no_risk:
  assumes "\<And>e. calculate_risk_parameters cfg (s_db st) pair session_name (p_prediction result) e bal = None"
  shows "execute_pair cfg now new_id session_name session_dt bal ohlc_close st pair result = (st, False)"
  using assms by (simp add: execute_pair_def Let_def split: option.splits)

lemma calculate_position_size_clamped:
  assumes "min_lot_size cfg \<le> max_lot_size cfg"
  shows "\<exists>m. min_lot_size cfg \<le> m \<and> m \<le> max_lot_size cfg \<and>
           fst (calculate_position_size cfg bal sl_pips pair rpa) = py_round m 2"
proof -
  obtain lot0 where l: "fst (calculate_position_size cfg bal sl_pips pair rpa)
      = py_round (min (max_lot_size cfg) (max (min_lot_size cfg) lot0)) 2"
    by (simp add: calculate_position_size_def Let_def)
  have "min_lot_size cfg \<le> min (max_lot_size cfg) (max (min_lot_size cfg) lot0)"
    "min (max_lot_size cfg) (max (min_lot_size cfg) lot0) \<le> max_lot_size cfg"
    using assms by simp_all
  with l show ?thesis by blast
qed

text \<open>
  Claim C5, as stated, fails for the lot size: the engine clamps to the limits first and
  rounds to 0.01 afterwards, and the limits are whatever the environment supplies. With
  a minimum lot size of 0.014, a balance of 100 and a stop distance of 15 pips, the raw
  size 0.0103 is clamped to 0.014 and rounded to 0.01, below the minimum.
\<close>

theorem risk_parameters_lot_counterexample:
  "map_option rp_lot_size
     (calculate_risk_parameters off_grid_settings demo_db ''EURUSD'' ''London_Open''
        ''BULLISH'' (11000 / 10000) 100) = Some (1 / 100) \<and>
   min_lot_size off_grid_settings = 14 / 1000 \<and>
   (1 / 100 :: real) < 14 / 1000"
  by code_simp

text \<open>
  Claim C5, amended. Every value the risk engine returns has \<open>tp_pips \<ge> 5\<close> and
  \<open>sl_pips \<ge> 5\<close> and prices ordered by direction: take-profit above and stop-loss below
  the entry for BULLISH, the reverse for BEARISH. Its lot size is a value between
  \<open>min_lot\<close> and \<open>max_lot\<close> rounded to 0.01-lot steps (for limits in order), so that
  \<open>min_lot \<le> lot_size \<le> max_lot\<close> holds whenever the configured limits are themselves
  multiples of 0.01 with \<open>min_lot \<le> max_lot\<close>, as the defaults 0.01 and 5.0 are.
\<close>

theorem risk_parameters_bounds:
  assumes "calculate_risk_parameters cfg db pair session_name dir entry_price bal = Some rp"
  shows "5 \<le> rp_tp_pips rp \<and> 5 \<le> rp_sl_pips rp \<and>
         rp_entry_price rp = entry_price \<and>
         (dir = ''BULLISH'' \<longrightarrow>
            rp_take_profit rp > rp_entry_price rp \<and> rp_entry_price rp > rp_stop_loss rp) \<and>
         (dir = ''BEARISH'' \<longrightarrow>
            rp_take_profit rp < rp_entry_price rp \<and> rp_entry_price rp < rp_stop_loss rp) \<and>
         (min_lot_size cfg \<le> max_lot_size cfg \<longrightarrow>
            (\<exists>m. min_lot_size cfg \<le> m \<and> m \<le> max_lot_size cfg \<and>
                  rp_lot_size rp = py_round m 2)) \<and>
         (lot_limits_ok cfg \<longrightarrow>
            min_lot_size cfg \<le> rp_lot_size rp \<and> rp_lot_size rp \<le> max_lot_size cfg)"
proof -
  from calculate_risk_parameters_Some [OF assms] obtain targets where
    ts: "calculate_tp_sl cfg entry_price dir pair targets None None
           = (rp_take_profit rp, rp_stop_loss rp, rp_tp_pips rp, rp_sl_pips rp)"
    and lot: "rp_lot_size rp = fst (calculate_position_size cfg bal (rp_sl_pips rp) pair None)"
    and e: "rp_entry_price rp = entry_price"
    by blast
  have b: "dir = ''BEARISH'' \<Longrightarrow> dir \<noteq> ''BULLISH''" by auto
  have p: "5 \<le> rp_tp_pips rp \<and> 5 \<le> rp_sl_pips rp \<and>
         rp_entry_price rp = entry_price \<and>
         (dir = ''BULLISH'' \<longrightarrow>
            rp_take_profit rp > rp_entry_price rp \<and> rp_entry_price rp > rp_stop_loss rp) \<and>
         (dir = ''BEARISH'' \<longrightarrow>
            rp_take_profit rp < rp_entry_price rp \<and> rp_entry_price rp < rp_stop_loss rp)"
    using calculate_tp_sl_props [OF ts] e b by simp
  have c: "min_lot_size cfg \<le> max_lot_size cfg \<longrightarrow>
            (\<exists>m. min_lot_size cfg \<le> m \<and> m \<le> max_lot_size cfg \<and>
                  rp_lot_size rp = py_round m 2)"
    using calculate_position_size_clamped [of cfg bal "rp_sl_pips rp" pair None] lot by simp
  have g: "lot_limits_ok cfg \<longrightarrow>
            min_lot_size cfg \<le> rp_lot_size rp \<and> rp_lot_size rp \<le> max_lot_size cfg"
    using calculate_position_size_bounds [of cfg bal "rp_sl_pips rp" pair None] lot by simp
  from p c g show ?thesis by blast
qed

theorem risk_parameters_bounds_witness:
  "calculate_risk_parameters default_settings demo_db ''EURUSD'' ''London_Open'' ''BULLISH''
     (11000 / 10000) 10000 = Some demo_rp \<and>
   lot_limits_ok default_settings \<and>
   5 \<le> rp_tp_pips demo_rp \<and> 5 \<le> rp_sl_pips demo_rp \<and>
   min_lot_size default_settings \<le> rp_lot_size demo_rp \<and>
   rp_lot_size demo_rp \<le> max_lot_size default_settings \<and>
   rp_take_profit demo_rp > rp_entry_price demo_rp \<and>
   rp_entry_price demo_rp > rp_stop_loss demo_rp"
proof -
  have h1: "calculate_risk_parameters default_settings demo_db ''EURUSD'' ''London_Open''
              ''BULLISH'' (11000 / 10000) 10000 = Some demo_rp"
    by code_simp
  have h2: "lot_limits_ok default_settings"
    by (simp add: lot_limits_ok_def default_settings_def)
  from risk_parameters_bounds [OF h1] h1 h2 show ?thesis by simp
qed

text \<open>
  Claim C7. The risk engine returns no risk parameters exactly when the materialization
  has no row for the pair and session or the row it reads has fewer than 30 samples.
  With a row of 29 samples the engine returns nothing for any direction and entry price,
  and the scheduler's step for the instrument opens no trade and leaves the database,
  the stream and the active-trades table as they were, whatever the prediction.
\<close>

theorem insufficient_data_no_trade:
  "(calculate_risk_parameters cfg db pair session_name dir entry_price bal = None \<longleftrightarrow>
      (case find (\<lambda>r. pr_pair r = pair \<and> pr_session_name r = session_name) (percentile_targets db) of
         None \<Rightarrow> True
       | Some row \<Rightarrow> pr_sample_count row < 30)) \<and>
   (\<forall>row. find (\<lambda>r. pr_pair r = pair \<and> pr_session_name r = session_name)
             (percentile_targets (s_db st)) = Some row \<and> pr_sample_count row = 29 \<longrightarrow>
      calculate_risk_parameters cfg (s_db st) pair session_name dir entry_price bal = None \<and>
      execute_pair cfg now new_id session_name session_dt bal ohlc_close st pair result
        = (st, False))"
proof (intro conjI allI impI)
  show "calculate_risk_parameters cfg db pair session_name dir entry_price bal = None \<longleftrightarrow>
      (case find (\<lambda>r. pr_pair r = pair \<and> pr_session_name r = session_name) (percentile_targets db) of
         None \<Rightarrow> True
       | Some row \<Rightarrow> pr_sample_count row < 30)"
    by (simp add: calculate_risk_parameters_None get_percentiles_row split: option.splits)
next
  fix row
  assume h: "find (\<lambda>r. pr_pair r = pair \<and> pr_session_name r = session_name)
             (percentile_targets (s_db st)) = Some row \<and> pr_sample_count row = 29"
  have n: "\<And>d e. calculate_risk_parameters cfg (s_db st) pair session_name d e bal = None"
    using h by (simp add: calculate_risk_parameters_None get_percentiles_row)
  show "calculate_risk_parameters cfg (s_db st) pair session_name dir entry_price bal = None"
    by (rule n)
  show "execute_pair cfg now new_id session_name session_dt bal ohlc_close st pair result
        = (st, False)"
    by (rule execute_pair_no_risk) (rule n)
qed

text \<open>The theorem at scenario S3: 29 samples, a Bullish prediction of conviction 9.\<close>

theorem insufficient_data_no_trade_witness:
  "find (\<lambda>r. pr_pair r = ''EURUSD'' \<and> pr_session_name r = ''London_Open'')
     (percentile_targets (s_db S3_scheduler)) = Some (demo_row\<lparr>pr_sample_count := 29\<rparr>) \<and>
   pr_sample_count (demo_row\<lparr>pr_sample_count := 29\<rparr>) = 29 \<and>
   calculate_risk_parameters default_settings (s_db S3_scheduler) ''EURUSD'' ''London_Open''
     ''BULLISH'' (11000 / 10000) 10000 = None \<and>
   execute_pair default_settings (mk_datetime 2024 3 11 8 0) ''N1'' ''London_Open''
     (mk_datetime 2024 3 11 8 0) 10000 (Some (11000 / 10000)) S3_scheduler ''EURUSD''
     S3_prediction = (S3_scheduler, False) \<and>
   trades (s_db S3_scheduler) = []"
proof -
  have h: "find (\<lambda>r. pr_pair r = ''EURUSD'' \<and> pr_session_name r = ''London_Open'')
      (percentile_targets (s_db S3_scheduler)) = Some (demo_row\<lparr>pr_sample_count := 29\<rparr>)"
    by (simp add: S3_scheduler_def S3_db_def demo_row_def)
  have c: "pr_sample_count (demo_row\<lparr>pr_sample_count := 29\<rparr>) = 29" by simp
  have t: "trades (s_db S3_scheduler) = []"
    by (simp add: S3_scheduler_def S3_db_def empty_database_def)
  from insufficient_data_no_trade [of default_settings _ "''EURUSD''" "''London_Open''"
         "''BULLISH''" "11000 / 10000" 10000 S3_scheduler "mk_datetime 2024 3 11 8 0" "''N1''"
         "mk_datetime 2024 3 11 8 0" "Some (11000 / 10000)" S3_prediction] h c t
  show ?thesis by blast
qed

section \<open>Properties: session clock\<close>

text \<open>
  Claim C8, as stated, fails: 2024-03-10 is a Sunday, and \<open>_get_next_session\<close> skips
  Saturdays and Sundays, so it does not answer with the New York open of that day.
\<close>

theorem next_session_S1_counterexample:
  "weekday S1_now = 6 \<and>
   get_next_session S1_now \<noteq> Inr (''NY_Open'', mk_datetime 2024 3 10 13 30)"
  by code_simp

text \<open>
  Claim C8, amended. With the clock at 2024-03-10T06:00:00Z, a Sunday,
  \<open>_get_next_session\<close> returns the Asian open of Monday, 2024-03-11T01:00:00Z. The
  daylight-saving part of the scenario holds for the session times: the New York open
  computed for 2024-03-10, the day US daylight time starts, is 13:30Z and not 14:30Z,
  while for 2024-03-03 it is 14:30Z; accordingly the next session at noon UTC of Monday
  2024-03-11 is New York at 13:30Z, and at noon UTC of Monday 2024-03-04 it is New York
  at 14:30Z.
\<close>

theorem next_session_S1:
  "get_next_session S1_now = Inr (''Asian_Open'', mk_datetime 2024 3 11 1 0) \<and>
   map_of (get_session_times_for_date (mk_datetime 2024 3 10 0 0)) ''NY_Open''
     = Some \<lparr>si_hour = 13, si_minute = 30, si_name = ''NY Open''\<rparr> \<and>
   map_of (get_session_times_for_date (mk_datetime 2024 3 3 0 0)) ''NY_Open''
     = Some \<lparr>si_hour = 14, si_minute = 30, si_name = ''NY Open''\<rparr> \<and>
   get_next_session (mk_datetime 2024 3 11 12 0) = Inr (''NY_Open'', mk_datetime 2024 3 11 13 30) \<and>
   get_next_session (mk_datetime 2024 3 4 12 0) = Inr (''NY_Open'', mk_datetime 2024 3 4 14 30)"
  by code_simp

section \<open>Properties: rolling window and materialization\<close>

lemma rw_inv_later:
  assumes "\<forall>a b. a \<le> b \<longrightarrow> smb a \<le> smb b" and "t \<le> t'" and "rw_inv smb t db"
  shows "rw_inv smb t' db"
proof -
  have "smb t \<le> smb t'" using assms(1,2) by blast
  then show ?thesis using assms(3) by (fastforce simp: rw_inv_def)
qed

lemma rw_inv_add:
  assumes "rw_inv smb t db"
  shows "rw_inv smb t (add_to_rolling_window db p sn sd pr c mfe mae m mf tf ta)"
  using assms
  by (auto simp: rw_inv_def add_to_rolling_window_def Let_def in_window_default_def)

lemma rw_inv_cleanup:
  assumes "rw_inv smb t db"
  shows "rw_inv smb t (fst (cleanup_old_rolling_data smb t db))"
  using assms by (auto simp: rw_inv_def cleanup_old_rolling_data_def Let_def)

lemma rw_inv_refresh:
  assumes "rw_inv smb t db"
  shows "rw_inv smb t (refresh_percentiles smb t db)"
  using assms by (simp add: rw_inv_def refresh_percentiles_def)

lemma rw_inv_step:
  assumes "rw_inv smb t db"
  shows "rw_inv smb t (rw_step smb db (t, ev))"
  using assms by (cases ev) (simp_all add: rw_inv_add rw_inv_cleanup rw_inv_refresh)

lemma rw_inv_run:
  assumes "\<forall>a b. a \<le> b \<longrightarrow> smb a \<le> smb b"
    and "sorted (t0 # map fst evs)" and "rw_inv smb t0 db"
  shows "rw_inv smb (last (t0 # map fst evs)) (rw_run smb db evs)"
  using assms(2,3)
proof (induction evs arbitrary: t0 db)
  case Nil
  then show ?case by simp
next
  case (Cons e evs)
  obtain t ev where e: "e = (t, ev)" by (cases e)
  have le: "t0 \<le> t" using Cons.prems(1) e by simp
  have s: "sorted (t # map fst evs)" using Cons.prems(1) e by simp
  have "rw_inv smb t db" by (rule rw_inv_later [OF assms(1) le Cons.prems(2)])
  then have "rw_inv smb t (rw_step smb db (t, ev))" by (rule rw_inv_step)
  from Cons.IH [OF s this] show ?case by (simp add: e)
qed

lemma rw_run_append:
  "rw_run smb db (xs @ ys) = rw_run smb (rw_run smb db xs) ys"
  by (induction xs arbitrary: db) simp_all

lemma query_row_origin:
  assumes "v \<in> set (percentile_targets_query smb t rows)"
  shows "\<exists>r \<in> set rows. smb t \<le> rw_session_datetime r \<and>
           group_key r = (pr_pair v, pr_session_name v, pr_model v)"
proof -
  let ?sel = "filter (\<lambda>r. rw_session_datetime r \<ge> smb t) rows"
  from assms obtain k where k: "k \<in> set (map group_key ?sel)"
    and v: "v = view_group t k (filter (\<lambda>r. group_key r = k) ?sel)"
    by (auto simp: percentile_targets_query_def Let_def)
  from k obtain r where r: "r \<in> set rows" "smb t \<le> rw_session_datetime r" "group_key r = k"
    by auto
  have "(pr_pair v, pr_session_name v, pr_model v) = k"
    unfolding v by (simp add: view_group_def)
  then have "group_key r = (pr_pair v, pr_session_name v, pr_model v)"
    using r(3) by simp
  with r(1,2) show ?thesis by blast
qed

lemma query_ignores_flagged:
  assumes "\<forall>r \<in> set rows. \<not> in_window r \<longrightarrow> rw_session_datetime r < smb t"
  shows "percentile_targets_query smb t rows = percentile_targets_query smb t (filter in_window rows)"
proof -
  have "filter (\<lambda>r. rw_session_datetime r \<ge> smb t) rows
          = filter (\<lambda>r. rw_session_datetime r \<ge> smb t) (filter in_window rows)"
    using assms by (induction rows) auto
  then show ?thesis by (simp add: percentile_targets_query_def)
qed

lemma query_ignores_old:
  "percentile_targets_query smb t rows
     = percentile_targets_query smb t (filter (\<lambda>r. \<not> rw_session_datetime r < smb t) rows)"
proof -
  have "filter (\<lambda>r. \<not> rw_session_datetime r < smb t) rows
          = filter (\<lambda>r. rw_session_datetime r \<ge> smb t) rows"
    by (simp add: not_less)
  then show ?thesis by (simp add: percentile_targets_query_def)
qed

text \<open>
  Claim C10. Let the rolling window start with every record in the window, let appends,
  expiries and refreshes happen at non-decreasing clock readings, and let the last
  operation be a refresh at time \<open>t\<close>. Then every row of the materialization belongs to a
  group that has a record with \<open>in_window = true\<close> (one that is also no older than six
  months); the materialization is what the same query yields after removing all records
  with \<open>in_window = false\<close>, and also what it yields after removing all records older
  than six months. The view's own filter is on \<open>session_datetime\<close>; the flag agrees with
  it because \<open>cleanup_old_rolling_data\<close> clears the flag only on records older than six
  months.
\<close>

theorem refresh_uses_only_in_window:
  assumes "\<forall>a b. a \<le> b \<longrightarrow> smb a \<le> smb b"
    and "sorted (map fst evs @ [t])"
    and "\<forall>r \<in> set (rolling_window db0). in_window r"
  shows "(\<forall>v \<in> set (percentile_targets (rw_run smb db0 (evs @ [(t, Refresh)]))).
            \<exists>r \<in> set (rolling_window (rw_run smb db0 (evs @ [(t, Refresh)]))).
               group_key r = (pr_pair v, pr_session_name v, pr_model v) \<and> in_window r \<and>
               smb t \<le> rw_session_datetime r) \<and>
         percentile_targets (rw_run smb db0 (evs @ [(t, Refresh)]))
           = percentile_targets_query smb t
               (filter in_window (rolling_window (rw_run smb db0 (evs @ [(t, Refresh)])))) \<and>
         percentile_targets (rw_run smb db0 (evs @ [(t, Refresh)]))
           = percentile_targets_query smb t
               (filter (\<lambda>r. \<not> rw_session_datetime r < smb t)
                  (rolling_window (rw_run smb db0 (evs @ [(t, Refresh)]))))"
proof -
  let ?db = "rw_run smb db0 evs"
  let ?fin = "rw_run smb db0 (evs @ [(t, Refresh)])"
  have fin: "?fin = refresh_percentiles smb t ?db" by (simp add: rw_run_append)
  have rows: "rolling_window ?fin = rolling_window ?db"
    and view: "percentile_targets ?fin = percentile_targets_query smb t (rolling_window ?db)"
    unfolding fin by (simp_all add: refresh_percentiles_def)
  define t0 where "t0 = (if evs = [] then t else fst (hd evs))"
  have s0: "sorted (t0 # map fst evs)"
    using assms(2) by (cases evs) (auto simp: t0_def sorted_append)
  have i0: "rw_inv smb t0 db0" using assms(3) by (simp add: rw_inv_def)
  have i1: "rw_inv smb (last (t0 # map fst evs)) ?db"
    by (rule rw_inv_run [OF assms(1) s0 i0])
  have "last (t0 # map fst evs) \<le> t"
    using assms(2) by (cases evs rule: rev_cases) (auto simp: t0_def sorted_append)
  from rw_inv_later [OF assms(1) this i1] have inv: "rw_inv smb t ?db" .
  then have flagged: "\<forall>r \<in> set (rolling_window ?db). \<not> in_window r \<longrightarrow> rw_session_datetime r < smb t"
    by (simp add: rw_inv_def)
  have a: "\<forall>v \<in> set (percentile_targets ?fin).
            \<exists>r \<in> set (rolling_window ?fin).
               group_key r = (pr_pair v, pr_session_name v, pr_model v) \<and> in_window r \<and>
               smb t \<le> rw_session_datetime r"
  proof
    fix v assume "v \<in> set (percentile_targets ?fin)"
    then have "v \<in> set (percentile_targets_query smb t (rolling_window ?db))"
      by (simp only: view)
    from query_row_origin [OF this] obtain r where r: "r \<in> set (rolling_window ?db)"
      "smb t \<le> rw_session_datetime r" "group_key r = (pr_pair v, pr_session_name v, pr_model v)"
      by blast
    have "in_window r" using flagged r(1,2) by fastforce
    with r show "\<exists>r \<in> set (rolling_window ?fin).
               group_key r = (pr_pair v, pr_session_name v, pr_model v) \<and> in_window r \<and>
               smb t \<le> rw_session_datetime r"
      unfolding rows by blast
  qed
  have b: "percentile_targets ?fin
           = percentile_targets_query smb t (filter in_window (rolling_window ?fin))"
    unfolding rows view by (rule query_ignores_flagged) (rule flagged)
  have c: "percentile_targets ?fin
           = percentile_targets_query smb t
               (filter (\<lambda>r. \<not> rw_session_datetime r < smb t) (rolling_window ?fin))"
    unfolding rows view by (rule query_ignores_old)
  from a b c show ?thesis by blast
qed

text \<open>
  The theorem on the demonstration run: the record of day 0 is expired on day 200 and
  only the record of day 190 is counted.
\<close>

theorem refresh_uses_only_in_window_witness:
  "sorted (map fst (butlast demo_run) @ [200]) \<and>
   rolling_window empty_database = [] \<and>
   map in_window (rolling_window (rw_run demo_six_months_before empty_database demo_run))
     = [False, True] \<and>
   map pr_sample_count
     (percentile_targets (rw_run demo_six_months_before empty_database demo_run)) = [1] \<and>
   percentile_targets (rw_run demo_six_months_before empty_database demo_run)
     = percentile_targets_query demo_six_months_before 200
         (filter in_window (rolling_window (rw_run demo_six_months_before empty_database demo_run)))"
proof -
  have h1: "\<forall>a b. a \<le> b \<longrightarrow> demo_six_months_before a \<le> demo_six_months_before b"
    by (simp add: demo_six_months_before_def)
  have h2: "sorted (map fst (butlast demo_run) @ [200])"
    by (simp add: demo_run_def)
  have h3: "\<forall>r \<in> set (rolling_window empty_database). in_window r"
    by (simp add: empty_database_def)
  have run: "butlast demo_run @ [(200, Refresh)] = demo_run"
    by (simp add: demo_run_def)
  have v1: "map in_window (rolling_window (rw_run demo_six_months_before empty_database demo_run))
     = [False, True]"
    by code_simp
  have v2: "map pr_sample_count
     (percentile_targets (rw_run demo_six_months_before empty_database demo_run)) = [1]"
    by code_simp
  have e: "rolling_window empty_database = []"
    by (simp add: empty_database_def)
  from refresh_uses_only_in_window [OF h1 h2 h3] h2 e v1 v2
  show ?thesis unfolding run by blast
qed

end
